theory Spec2Isabelle
  imports Main "HOL-Library.AList"
begin

section \<open>Values of the Python run time\<close>

text \<open>
  The exceptions that the modelled code can raise.  \<open>ValueError\<close> carries its message and
  \<open>KeyError\<close> the missing key.  \<open>ExpatError\<close>, \<open>TransportError\<close> and \<open>SOAPError\<close> stand for
  whatever \<^verbatim>\<open>minidom.parseString\<close>, \<^verbatim>\<open>utils.make_http_request\<close> and \<^verbatim>\<open>SOAP.send\<close>
  raise; these live outside the two modules verified here.
\<close>

datatype error =
    IndexError
  | AttributeError
  | TypeError
  | KeyError string
  | ValueError string
  | ExpatError
  | TransportError
  | SOAPError

text \<open>Keyword-argument values handed to an action: Python \<^verbatim>\<open>str\<close> and \<^verbatim>\<open>int\<close>.\<close>

datatype pyvalue = PyStr string | PyInt int

subsection \<open>\<^verbatim>\<open>str.split\<close>, \<^verbatim>\<open>int\<close> and \<^verbatim>\<open>str\<close>\<close>

text \<open>
  \<^verbatim>\<open>s.split(sep)\<close> for a one-character separator: every occurrence of the separator
  ends a segment, so the empty string splits into one empty segment.  A character of the
  model stands for the code point of the same number.
\<close>

fun split :: "char \<Rightarrow> string \<Rightarrow> string list" where
  "split sep [] = [[]]"
| "split sep (c # cs) =
     (if c = sep then [] # split sep cs
      else (case split sep cs of
              [] \<Rightarrow> [[c]]
            | w # ws \<Rightarrow> (c # w) # ws))"

text \<open>The inverse operation, \<^verbatim>\<open>sep.join(segments)\<close>.\<close>

fun join :: "char \<Rightarrow> string list \<Rightarrow> string" where
  "join sep [] = []"
| "join sep [w] = w"
| "join sep (w # v # ws) = w @ sep # join sep (v # ws)"

text \<open>
  \<^verbatim>\<open>int(s)\<close> on a string, base ten: white space is stripped at both ends, one sign may
  follow, then decimal digits, where a single underscore may stand between two digits.
  Anything else is a \<^verbatim>\<open>ValueError\<close>.  The bound that an interpreter may put on the
  number of digits is left out.
\<close>

definition is_space :: "char \<Rightarrow> bool" where
  "is_space c \<longleftrightarrow> c \<in> {CHR 0x09, CHR 0x0A, CHR 0x0B, CHR 0x0C, CHR 0x0D, CHR 0x20, CHR 0x85, CHR 0xA0}"

definition is_digit :: "char \<Rightarrow> bool" where
  "is_digit c \<longleftrightarrow> c \<in> set ''0123456789''"

definition digit_value :: "char \<Rightarrow> nat" where
  "digit_value c = of_char c - 48"

definition strip :: "string \<Rightarrow> string" where
  "strip s = rev (dropWhile is_space (rev (dropWhile is_space s)))"

fun digits_value :: "string \<Rightarrow> nat \<Rightarrow> nat option" where
  "digits_value [] acc = Some acc"
| "digits_value (c # cs) acc =
     (if is_digit c then digits_value cs (acc * 10 + digit_value c)
      else if c = CHR ''_'' \<and> cs \<noteq> [] \<and> is_digit (hd cs) then digits_value cs acc
      else None)"

definition unsigned_value :: "string \<Rightarrow> nat option" where
  "unsigned_value s =
     (case s of
        [] \<Rightarrow> None
      | c # cs \<Rightarrow> if is_digit c then digits_value s 0 else None)"

definition py_int :: "string \<Rightarrow> error + int" where
  "py_int s =
     (let t = strip s;
          (negative, body) =
             (case t of
                [] \<Rightarrow> (False, t)
              | c # cs \<Rightarrow>
                  if c = CHR ''-'' then (True, cs)
                  else if c = CHR ''+'' then (False, cs)
                  else (False, t))
      in case unsigned_value body of
           None \<Rightarrow> Inl (ValueError ''invalid literal for int() with base 10'')
         | Some n \<Rightarrow> Inr (if negative then - int n else int n))"

text \<open>\<^verbatim>\<open>str(n)\<close> of an integer: its decimal digits, after a minus sign when it is negative.\<close>

fun nat_digits :: "nat \<Rightarrow> string" where
  "nat_digits n =
     (if n < 10 then [''0123456789'' ! n]
      else nat_digits (n div 10) @ [''0123456789'' ! (n mod 10)])"

declare nat_digits.simps [simp del]

definition py_str :: "int \<Rightarrow> string" where
  "py_str i = (if i < 0 then CHR ''-'' # nat_digits (nat (- i)) else nat_digits (nat i))"

text \<open>Formatting a value that may be \<^verbatim>\<open>None\<close> inside an f-string.\<close>

definition format_opt :: "string option \<Rightarrow> string" where
  "format_opt v = (case v of None \<Rightarrow> ''None'' | Some s \<Rightarrow> s)"

section \<open>The document object model\<close>

text \<open>
  What \<^verbatim>\<open>minidom\<close> hands to the code: element nodes with a tag name and child nodes,
  and character-data nodes (text, CDATA and comment nodes, whose \<^verbatim>\<open>nodeValue\<close> is their
  data).  The document node is an element named \<^verbatim>\<open>#document\<close> whose child is the root
  element.  The code reads no attribute.
\<close>

datatype node = Element string "node list" | Text string

fun childNodes :: "node \<Rightarrow> node list" where
  "childNodes (Element t cs) = cs"
| "childNodes (Text d) = []"

fun nodeValue :: "node \<Rightarrow> string option" where
  "nodeValue (Element t cs) = None"
| "nodeValue (Text d) = Some d"

text \<open>
  The helper behind \<^verbatim>\<open>getElementsByTagName\<close>: the element descendants with the given
  tag name, in document order, the children of a match being searched too.  The code
  passes fixed tag names, never the wildcard.
\<close>

fun elements_by_tag :: "string \<Rightarrow> node list \<Rightarrow> node list" where
  "elements_by_tag tag [] = []"
| "elements_by_tag tag (Text d # ns) = elements_by_tag tag ns"
| "elements_by_tag tag (Element t cs # ns) =
     (if t = tag then [Element t cs] else []) @ elements_by_tag tag cs @ elements_by_tag tag ns"

definition getElementsByTagName :: "string \<Rightarrow> node \<Rightarrow> node list" where
  "getElementsByTagName tag n = elements_by_tag tag (childNodes n)"

text \<open>
  The expression \<^verbatim>\<open>nodes[0].firstChild.nodeValue\<close>: an empty list raises
  \<^verbatim>\<open>IndexError\<close>; a first node without children has \<^verbatim>\<open>firstChild\<close> \<^verbatim>\<open>None\<close>, and
  reading \<^verbatim>\<open>nodeValue\<close> from it raises \<^verbatim>\<open>AttributeError\<close>; a first child that is an
  element has the \<^verbatim>\<open>nodeValue\<close> \<^verbatim>\<open>None\<close>.
\<close>

definition first_node_value :: "node list \<Rightarrow> error + string option" where
  "first_node_value nodes =
     (case nodes of
        [] \<Rightarrow> Inl IndexError
      | n # _ \<Rightarrow>
          (case childNodes n of
             [] \<Rightarrow> Inl AttributeError
           | c # _ \<Rightarrow> Inr (nodeValue c)))"

definition element_text :: "string \<Rightarrow> node \<Rightarrow> error + string option" where
  "element_text tag n = first_node_value (getElementsByTagName tag n)"

section \<open>Arguments and actions\<close>

text \<open>
  \<^verbatim>\<open>SSDPDevice.Service.Action.Argument\<close>.  Each field holds what \<^verbatim>\<open>nodeValue\<close> gave,
  which may be \<^verbatim>\<open>None\<close>.
\<close>

record Argument =
  name :: "string option"
  direction :: "string option"
  return_value :: "string option"
  related_state_variable :: "string option"

text \<open>
  \<^verbatim>\<open>SSDPDevice.Service.Action\<close>.  The back reference to the owning service is left out:
  the service is passed along wherever an action is executed.
\<close>

record Action =
  action_name :: "string option"
  arguments :: "Argument list"
  args_in :: "Argument list"
  args_out :: "Argument list"

text \<open>
  The loop of \<^verbatim>\<open>Action.__init__\<close> over the arguments, with the two lists it appends to.
\<close>

fun classify :: "Argument list \<Rightarrow> Argument list \<Rightarrow> Argument list \<Rightarrow>
    error + (Argument list \<times> Argument list)" where
  "classify [] ins outs = Inr (ins, outs)"
| "classify (a # rest) ins outs =
     (if direction a = Some ''in'' then classify rest (ins @ [a]) outs
      else if direction a = Some ''out'' then classify rest ins (outs @ [a])
      else Inl (ValueError (''No valid argument direction specified by service for''
                  @ '' argument '' @ [CHR 0x22] @ format_opt (name a) @ [CHR 0x22] @ ''.'')))"

definition Action_init :: "string option \<Rightarrow> Argument list \<Rightarrow> error + Action" where
  "Action_init nm argument_list =
     (case classify argument_list [] [] of
        Inl e \<Rightarrow> Inl e
      | Inr (ins, outs) \<Rightarrow>
          Inr \<lparr>action_name = nm, arguments = argument_list, args_in = ins, args_out = outs\<rparr>)"

section \<open>Parsing the service description\<close>

text \<open>
  The body of the inner loop of \<^verbatim>\<open>_get_actions\<close>: one \<^verbatim>\<open><argument>\<close> element.  Only the
  \<^verbatim>\<open>IndexError\<close> of a missing \<^verbatim>\<open><retval>\<close> is caught.
\<close>

definition parse_argument :: "node \<Rightarrow> error + Argument" where
  "parse_argument argument =
     (case element_text ''name'' argument of
        Inl e \<Rightarrow> Inl e
      | Inr argument_name \<Rightarrow>
     (case element_text ''direction'' argument of
        Inl e \<Rightarrow> Inl e
      | Inr argument_direction \<Rightarrow>
     (case (case element_text ''retval'' argument of
              Inl IndexError \<Rightarrow> Inr None
            | r \<Rightarrow> r) of
        Inl e \<Rightarrow> Inl e
      | Inr argument_return_value \<Rightarrow>
     (case element_text ''relatedStateVariable'' argument of
        Inl e \<Rightarrow> Inl e
      | Inr argument_related_state_variable \<Rightarrow>
          Inr \<lparr>name = argument_name, direction = argument_direction,
               return_value = argument_return_value,
               related_state_variable = argument_related_state_variable\<rparr>))))"

fun parse_arguments :: "node list \<Rightarrow> Argument list \<Rightarrow> error + Argument list" where
  "parse_arguments [] action_arguments = Inr action_arguments"
| "parse_arguments (argument # rest) action_arguments =
     (case parse_argument argument of
        Inl e \<Rightarrow> Inl e
      | Inr a \<Rightarrow> parse_arguments rest (action_arguments @ [a]))"

text \<open>
  The body of the outer loop: one \<^verbatim>\<open><action>\<close> element.  A missing \<^verbatim>\<open><argumentList>\<close>
  leaves the argument list empty.
\<close>

definition parse_action :: "node \<Rightarrow> error + Action" where
  "parse_action action =
     (case element_text ''name'' action of
        Inl e \<Rightarrow> Inl e
      | Inr nm \<Rightarrow>
     (case (case getElementsByTagName ''argumentList'' action of
              [] \<Rightarrow> Inr []
            | action_argument_list # _ \<Rightarrow>
                parse_arguments (getElementsByTagName ''argument'' action_argument_list) []) of
        Inl e \<Rightarrow> Inl e
      | Inr action_arguments \<Rightarrow> Action_init nm action_arguments))"

text \<open>
  The outer loop, with the dictionary \<^verbatim>\<open>all_actions\<close> it fills: an association list in
  insertion order, a later action of the same name replacing the earlier one in place.
\<close>

fun parse_actions :: "node list \<Rightarrow> (string option \<times> Action) list \<Rightarrow>
    error + (string option \<times> Action) list" where
  "parse_actions [] all_actions = Inr all_actions"
| "parse_actions (action # rest) all_actions =
     (case parse_action action of
        Inl e \<Rightarrow> Inl e
      | Inr a \<Rightarrow> parse_actions rest (AList.update (action_name a) a all_actions))"

section \<open>Services\<close>

text \<open>
  \<^verbatim>\<open>SSDPDevice.Service\<close>.  \<open>service_type\<close> is the attribute \<^verbatim>\<open>type_\<close>, \<open>service_id\<close> the
  attribute \<^verbatim>\<open>id\<close>; \<open>service_base_url\<close> and \<open>service_description\<close> are the attributes
  \<^verbatim>\<open>base_url\<close> and \<^verbatim>\<open>description\<close>.  The attribute \<^verbatim>\<open>actions\<close> starts as an empty
  container and becomes the dictionary of the parsed actions.
\<close>

record Service =
  service :: string
  service_type :: string
  version :: int
  service_id :: "string option"
  scpd_url :: "string option"
  control_url :: "string option"
  event_sub_url :: "string option"
  service_base_url :: string
  actions :: "(string option \<times> Action) list"
  service_description :: "string option"

text \<open>
  What happens outside the two modules, in the order it happens: requests sent, documents
  parsed, SOAP calls made, lines printed.
\<close>

datatype event =
    HttpRequest string
  | XmlParse string
  | SoapSend string "string option" "(string \<times> pyvalue) list"
  | Stdout string

type_synonym trace = "event list"

text \<open>\<^verbatim>\<open>urlparse\<close> as the code uses it: the two components that the f-string formats.\<close>

record parsed_url =
  scheme :: string
  netloc :: string

text \<open>
  The collaborators that the two modules call and that are defined elsewhere, taken as
  parameters:
  \<^item> \<open>parseString\<close> is \<^verbatim>\<open>minidom.parseString\<close>, the document node or the parser's error;
  \<^item> \<open>make_http_request\<close> is \<^verbatim>\<open>utils.make_http_request(url).read()\<close>, the body of the
    response or the error of the transport; the bytes of a body and the text decoded from
    them are one string;
  \<^item> \<open>parse_http_header\<close> and \<open>parse_service_id\<close> are the functions of \<^verbatim>\<open>upnpy.utils\<close>;
  \<^item> \<open>urlparse\<close> is \<^verbatim>\<open>urllib.parse.urlparse\<close>, applied to a value that may be \<^verbatim>\<open>None\<close>;
  \<^item> \<open>SOAP_send\<close> is \<^verbatim>\<open>SOAP.send\<close>, the dictionary of the output arguments or an error.
\<close>

record env =
  parseString :: "string \<Rightarrow> error + node"
  make_http_request :: "string \<Rightarrow> error + string"
  parse_http_header :: "string \<Rightarrow> string \<Rightarrow> error + string"
  parse_service_id :: "string option \<Rightarrow> error + string"
  urlparse :: "string option \<Rightarrow> error + parsed_url"
  SOAP_send :: "Service \<Rightarrow> Action \<Rightarrow> (string \<times> pyvalue) list \<Rightarrow> error + (string \<rightharpoonup> string)"

text \<open>
  The two static methods, on a service string.  Indexing the list of segments out of
  range raises \<^verbatim>\<open>IndexError\<close>.
\<close>

definition get_service_type :: "string \<Rightarrow> error + string" where
  "get_service_type s =
     (let segments = split CHR '':'' s
      in if 3 < length segments then Inr (segments ! 3) else Inl IndexError)"

definition get_service_version :: "string \<Rightarrow> error + int" where
  "get_service_version s =
     (let segments = split CHR '':'' s
      in if 4 < length segments then py_int (segments ! 4) else Inl IndexError)"

text \<open>
  \<^verbatim>\<open>Service._get_description\<close>: concatenating the base URL with an SCPD URL that is
  \<^verbatim>\<open>None\<close> is a \<^verbatim>\<open>TypeError\<close>, raised before any request is sent.
\<close>

definition Service_get_description ::
    "env \<Rightarrow> Service \<Rightarrow> trace \<Rightarrow> (error + string) \<times> Service \<times> trace" where
  "Service_get_description E self tr =
     (case scpd_url self of
        None \<Rightarrow> (Inl TypeError, self, tr)
      | Some u \<Rightarrow>
          (let url = service_base_url self @ u
           in case make_http_request E url of
                Inl e \<Rightarrow> (Inl e, self, tr @ [HttpRequest url])
              | Inr body \<Rightarrow>
                  (Inr body, self\<lparr>service_description := Some body\<rparr>, tr @ [HttpRequest url])))"

text \<open>
  \<^verbatim>\<open>Service._get_actions\<close>, with the check of its decorator first.  The attribute
  \<^verbatim>\<open>actions\<close> is assigned only after both loops have finished.
\<close>

definition get_actions ::
    "env \<Rightarrow> Service \<Rightarrow> trace \<Rightarrow> (error + (string option \<times> Action) list) \<times> Service \<times> trace" where
  "get_actions E self tr =
     (case service_description self of
        None \<Rightarrow> (Inl (ValueError ''No service description retrieved for this service.''), self, tr)
      | Some d \<Rightarrow>
          (case parseString E d of
             Inl e \<Rightarrow> (Inl e, self, tr @ [XmlParse d])
           | Inr root \<Rightarrow>
               (case parse_actions (getElementsByTagName ''action'' root) [] of
                  Inl e \<Rightarrow> (Inl e, self, tr @ [XmlParse d])
                | Inr all_actions \<Rightarrow>
                    (Inr all_actions, self\<lparr>actions := all_actions\<rparr>, tr @ [XmlParse d]))))"

text \<open>
  \<^verbatim>\<open>Service.__init__\<close>.  A service string that is \<^verbatim>\<open>None\<close> has no \<^verbatim>\<open>split\<close>, so the
  first static method raises \<^verbatim>\<open>AttributeError\<close>.  An exception leaves no object behind,
  only the trace of what was done before it.
\<close>

definition Service_init ::
    "env \<Rightarrow> string option \<Rightarrow> string option \<Rightarrow> string option \<Rightarrow> string option \<Rightarrow>
     string option \<Rightarrow> string \<Rightarrow> trace \<Rightarrow> (error + Service) \<times> trace" where
  "Service_init E srv sid scpd control event_sub base tr =
     (case srv of
        None \<Rightarrow> (Inl AttributeError, tr)
      | Some s \<Rightarrow>
     (case get_service_type s of
        Inl e \<Rightarrow> (Inl e, tr)
      | Inr ty \<Rightarrow>
     (case get_service_version s of
        Inl e \<Rightarrow> (Inl e, tr)
      | Inr ver \<Rightarrow>
          (let self = \<lparr>service = s, service_type = ty, version = ver, service_id = sid,
                       scpd_url = scpd, control_url = control, event_sub_url = event_sub,
                       service_base_url = base, actions = [], service_description = None\<rparr>
           in case Service_get_description E self tr of
                (Inl e, self1, tr1) \<Rightarrow> (Inl e, tr1)
              | (Inr _, self1, tr1) \<Rightarrow>
                  (case get_actions E self1 tr1 of
                     (Inl e, self2, tr2) \<Rightarrow> (Inl e, tr2)
                   | (Inr _, self2, tr2) \<Rightarrow> (Inr self2, tr2))))))"

text \<open>
  \<^verbatim>\<open>Service.__getattr__\<close>: the action stored under the name, whose \<^verbatim>\<open>execute\<close> method is
  returned; a name that is no key of the dictionary raises \<^verbatim>\<open>KeyError\<close>.
\<close>

definition Service_getattr :: "Service \<Rightarrow> string \<Rightarrow> error + Action" where
  "Service_getattr self nm =
     (case map_of (actions self) (Some nm) of
        None \<Rightarrow> Inl (KeyError nm)
      | Some a \<Rightarrow> Inr a)"

text \<open>\<^verbatim>\<open>Action.execute\<close>: the one place where a SOAP call is made.\<close>

definition execute ::
    "env \<Rightarrow> Service \<Rightarrow> Action \<Rightarrow> (string \<times> pyvalue) list \<Rightarrow> trace \<Rightarrow>
     (error + (string \<rightharpoonup> string)) \<times> trace" where
  "execute E self a action_kwargs tr =
     (SOAP_send E self a action_kwargs,
      tr @ [SoapSend (service self) (action_name a) action_kwargs])"

text \<open>
  \<^verbatim>\<open>service.__getattr__(NAME)\<close> followed by the call of the method it gave: what the call
  \<^verbatim>\<open>service.NAME(...)\<close> does when Python's ordinary lookup finds no attribute \<^verbatim>\<open>NAME\<close>.
\<close>

definition dispatch ::
    "env \<Rightarrow> Service \<Rightarrow> string \<Rightarrow> (string \<times> pyvalue) list \<Rightarrow> trace \<Rightarrow>
     (error + (string \<rightharpoonup> string)) \<times> trace" where
  "dispatch E self nm action_kwargs tr =
     (case Service_getattr self nm of
        Inl e \<Rightarrow> (Inl e, tr)
      | Inr a \<Rightarrow> execute E self a action_kwargs tr)"

text \<open>
  The names that ordinary lookup finds on a service, before \<^verbatim>\<open>__getattr__\<close> is asked:
  the attributes that \<^verbatim>\<open>__init__\<close> assigns, which hold strings, an integer, a dictionary
  or \<^verbatim>\<open>None\<close>; the methods and the nested class of the class body; and the names of the
  form \<^verbatim>\<open>__x__\<close>, among them \<^verbatim>\<open>__init__\<close> and \<^verbatim>\<open>__getattr__\<close>, which the interpreter may
  define for every object.
\<close>

definition instance_attributes :: "string list" where
  "instance_attributes =
     [''service'', ''type_'', ''version'', ''id'', ''scpd_url'', ''control_url'',
      ''event_sub_url'', ''base_url'', ''actions'', ''description'']"

definition class_attributes :: "string list" where
  "class_attributes =
     [''_get_description'', ''_get_actions'', ''_get_service_type'', ''_get_service_version'',
      ''Action'']"

definition reserved_name :: "string \<Rightarrow> bool" where
  "reserved_name nm \<longleftrightarrow> take 2 nm = ''__'' \<and> take 2 (rev nm) = ''__''"

text \<open>What a call by name can return: a dictionary, a string, or another object.\<close>

datatype pyobject = Dict "string \<rightharpoonup> string" | Str string | Object

text \<open>
  The call \<^verbatim>\<open>service.NAME(...)\<close> with keyword arguments, for any \<^verbatim>\<open>NAME\<close>.  An attribute
  assigned by \<^verbatim>\<open>__init__\<close> is not callable: \<^verbatim>\<open>TypeError\<close>.  \<^verbatim>\<open>_get_description\<close> takes no
  argument; called so, it sends its request and stores and returns the description.
  Calling one of the other methods, the nested class or a name of the form \<^verbatim>\<open>__x__\<close> is
  left to the parameter \<open>other\<close>: neither module does it.  Every other name goes to
  \<^verbatim>\<open>__getattr__\<close>.
\<close>

definition invoke ::
    "env \<Rightarrow>
     (Service \<Rightarrow> string \<Rightarrow> (string \<times> pyvalue) list \<Rightarrow> trace \<Rightarrow> (error + pyobject) \<times> Service \<times> trace) \<Rightarrow>
     Service \<Rightarrow> string \<Rightarrow> (string \<times> pyvalue) list \<Rightarrow> trace \<Rightarrow>
     (error + pyobject) \<times> Service \<times> trace" where
  "invoke E other self nm action_kwargs tr =
     (if nm \<in> set instance_attributes then (Inl TypeError, self, tr)
      else if nm = ''_get_description'' then
        (if action_kwargs = [] then
           (case Service_get_description E self tr of
              (Inl e, self1, tr1) \<Rightarrow> (Inl e, self1, tr1)
            | (Inr d, self1, tr1) \<Rightarrow> (Inr (Str d), self1, tr1))
         else (Inl TypeError, self, tr))
      else if nm \<in> set class_attributes \<or> reserved_name nm then other self nm action_kwargs tr
      else
        (case dispatch E self nm action_kwargs tr of
           (Inl e, tr1) \<Rightarrow> (Inl e, self, tr1)
         | (Inr m, tr1) \<Rightarrow> (Inr (Dict m), self, tr1)))"

section \<open>Devices\<close>

text \<open>
  \<^verbatim>\<open>SSDPDevice\<close>, with the attributes that its methods read or assign: \<open>device_type\<close> is
  the attribute \<^verbatim>\<open>type_\<close>.  The address of the device is stored and never read again.
\<close>

record SSDPDevice =
  response :: string
  description :: "string option"
  device_type :: "string option"
  base_url :: "string option"
  services :: "(string \<times> Service) list"

text \<open>\<^verbatim>\<open>SSDPDevice._get_description\<close>.\<close>

definition get_description ::
    "env \<Rightarrow> string \<Rightarrow> SSDPDevice \<Rightarrow> trace \<Rightarrow> (error + string) \<times> SSDPDevice \<times> trace" where
  "get_description E url self tr =
     (case make_http_request E url of
        Inl e \<Rightarrow> (Inl e, self, tr @ [HttpRequest url])
      | Inr device_description \<Rightarrow>
          (Inr device_description, self\<lparr>description := Some device_description\<rparr>,
           tr @ [HttpRequest url]))"

text \<open>
  \<^verbatim>\<open>SSDPDevice._get_type\<close>, with the check of its decorator first; the device type is
  printed before it is stored.
\<close>

definition get_type ::
    "env \<Rightarrow> SSDPDevice \<Rightarrow> trace \<Rightarrow> (error + string option) \<times> SSDPDevice \<times> trace" where
  "get_type E self tr =
     (case description self of
        None \<Rightarrow> (Inl (ValueError ''No device description retrieved for this device.''), self, tr)
      | Some d \<Rightarrow>
          (case parseString E d of
             Inl e \<Rightarrow> (Inl e, self, tr @ [XmlParse d])
           | Inr root \<Rightarrow>
               (case element_text ''deviceType'' root of
                  Inl e \<Rightarrow> (Inl e, self, tr @ [XmlParse d])
                | Inr ty \<Rightarrow>
                    (Inr ty, self\<lparr>device_type := ty\<rparr>,
                     tr @ [XmlParse d, Stdout (''Device type '' @ format_opt ty)]))))"

text \<open>
  \<^verbatim>\<open>SSDPDevice._get_base_url\<close>, with the check of its decorator first.  The header is read
  before the description is parsed.  Only the \<^verbatim>\<open>IndexError\<close> of a missing \<^verbatim>\<open><URLBase>\<close>
  is caught, and the handler turns to the header's value.
\<close>

definition get_base_url ::
    "env \<Rightarrow> SSDPDevice \<Rightarrow> trace \<Rightarrow> (error + string) \<times> SSDPDevice \<times> trace" where
  "get_base_url E self tr =
     (case description self of
        None \<Rightarrow> (Inl (ValueError ''No device description retrieved for this device.''), self, tr)
      | Some d \<Rightarrow>
          (case parse_http_header E (response self) ''Location'' of
             Inl e \<Rightarrow> (Inl e, self, tr)
           | Inr location_header_value \<Rightarrow>
               (case parseString E d of
                  Inl e \<Rightarrow> (Inl e, self, tr @ [XmlParse d])
                | Inr root \<Rightarrow>
                    (case (case (case element_text ''URLBase'' root of
                                   Inl e \<Rightarrow> Inl e
                                 | Inr v \<Rightarrow> urlparse E v) of
                             Inl IndexError \<Rightarrow> urlparse E (Some location_header_value)
                           | r \<Rightarrow> r) of
                       Inl e \<Rightarrow> (Inl e, self, tr @ [XmlParse d])
                     | Inr parsed \<Rightarrow>
                         (let url = scheme parsed @ ''://'' @ netloc parsed
                          in (Inr url, self\<lparr>base_url := Some url\<rparr>, tr @ [XmlParse d]))))))"

text \<open>
  The five required children of one \<^verbatim>\<open><service>\<close> element, read in the order of the
  source.
\<close>

definition service_fields ::
    "node \<Rightarrow> error + (string option \<times> string option \<times> string option \<times> string option \<times> string option)" where
  "service_fields srv =
     (case element_text ''serviceType'' srv of
        Inl e \<Rightarrow> Inl e
      | Inr service_string \<Rightarrow>
     (case element_text ''serviceId'' srv of
        Inl e \<Rightarrow> Inl e
      | Inr sid \<Rightarrow>
     (case element_text ''SCPDURL'' srv of
        Inl e \<Rightarrow> Inl e
      | Inr scpd \<Rightarrow>
     (case element_text ''controlURL'' srv of
        Inl e \<Rightarrow> Inl e
      | Inr control \<Rightarrow>
     (case element_text ''eventSubURL'' srv of
        Inl e \<Rightarrow> Inl e
      | Inr event_sub \<Rightarrow> Inr (service_string, sid, scpd, control, event_sub))))))"

text \<open>
  The loop of \<^verbatim>\<open>_get_services\<close> over the \<^verbatim>\<open><service>\<close> elements, with the dictionary
  \<^verbatim>\<open>device_services\<close> it fills: a service is constructed only when its key is new.
\<close>

fun services_loop ::
    "env \<Rightarrow> string \<Rightarrow> node list \<Rightarrow> (string \<times> Service) list \<Rightarrow> trace \<Rightarrow>
     (error + (string \<times> Service) list) \<times> trace" where
  "services_loop E base [] device_services tr = (Inr device_services, tr)"
| "services_loop E base (srv # rest) device_services tr =
     (case service_fields srv of
        Inl e \<Rightarrow> (Inl e, tr)
      | Inr (service_string, sid, scpd, control, event_sub) \<Rightarrow>
     (case parse_service_id E sid of
        Inl e \<Rightarrow> (Inl e, tr)
      | Inr parsed_service_id \<Rightarrow>
          if parsed_service_id \<notin> set (map fst device_services) then
            (case Service_init E service_string sid scpd control event_sub base tr of
               (Inl e, tr1) \<Rightarrow> (Inl e, tr1)
             | (Inr s, tr1) \<Rightarrow>
                 services_loop E base rest (device_services @ [(parsed_service_id, s)]) tr1)
          else services_loop E base rest device_services tr))"

text \<open>
  \<^verbatim>\<open>SSDPDevice._get_services\<close>, with the checks of its two decorators first.  The guard
  \<^verbatim>\<open>if not self.services\<close> holds exactly when the dictionary is empty.
\<close>

definition get_services ::
    "env \<Rightarrow> SSDPDevice \<Rightarrow> trace \<Rightarrow> (error + (string \<times> Service) list) \<times> SSDPDevice \<times> trace" where
  "get_services E self tr =
     (case description self of
        None \<Rightarrow> (Inl (ValueError ''No device description retrieved for this device.''), self, tr)
      | Some d \<Rightarrow>
     (case base_url self of
        None \<Rightarrow> (Inl (ValueError ''No base URL was retrieved for this device.''), self, tr)
      | Some base \<Rightarrow>
          if services self = [] then
            (case parseString E d of
               Inl e \<Rightarrow> (Inl e, self, tr @ [XmlParse d])
             | Inr root \<Rightarrow>
                 (case services_loop E base (getElementsByTagName ''service'' root) []
                         (tr @ [XmlParse d]) of
                    (Inl e, tr1) \<Rightarrow> (Inl e, self, tr1)
                  | (Inr device_services, tr1) \<Rightarrow>
                      (Inr device_services, self\<lparr>services := device_services\<rparr>, tr1)))
          else (Inr (services self), self, tr)))"

text \<open>
  \<^verbatim>\<open>SSDPDevice.__init__\<close>: the four steps in a row, the first exception ending the
  construction.
\<close>

definition SSDPDevice_init ::
    "env \<Rightarrow> string \<Rightarrow> trace \<Rightarrow> (error + SSDPDevice) \<times> trace" where
  "SSDPDevice_init E resp tr =
     (let self = \<lparr>response = resp, description = None, device_type = None, base_url = None,
                  services = []\<rparr>
      in case parse_http_header E resp ''Location'' of
           Inl e \<Rightarrow> (Inl e, tr)
         | Inr url \<Rightarrow>
      (case get_description E url self tr of
         (Inl e, self1, tr1) \<Rightarrow> (Inl e, tr1)
       | (Inr _, self1, tr1) \<Rightarrow>
      (case get_type E self1 tr1 of
         (Inl e, self2, tr2) \<Rightarrow> (Inl e, tr2)
       | (Inr _, self2, tr2) \<Rightarrow>
      (case get_base_url E self2 tr2 of
         (Inl e, self3, tr3) \<Rightarrow> (Inl e, tr3)
       | (Inr _, self3, tr3) \<Rightarrow>
      (case get_services E self3 tr3 of
         (Inl e, self4, tr4) \<Rightarrow> (Inl e, tr4)
       | (Inr _, self4, tr4) \<Rightarrow> (Inr self4, tr4))))))"

section \<open>The gateway tool\<close>

text \<open>
  \<^verbatim>\<open>Igd.GetPortMappings\<close>: the loop over \<^verbatim>\<open>count()\<close>, which ends only when a query raises;
  every exception ends it.  The query is a call by the name \<^verbatim>\<open>GetGenericPortMappingEntry\<close>,
  which the service does not define, so it goes through \<^verbatim>\<open>__getattr__\<close>.  A gateway that answers every index keeps the loop running for
  ever, and then the function has no result.
\<close>

partial_function (option) GetPortMappings_loop ::
    "env \<Rightarrow> Service \<Rightarrow> nat \<Rightarrow> (string \<rightharpoonup> string) list \<Rightarrow> trace \<Rightarrow>
     ((string \<rightharpoonup> string) list \<times> trace) option" where
  "GetPortMappings_loop E srv i mappings tr =
     (case dispatch E srv ''GetGenericPortMappingEntry''
             [(''NewPortMappingIndex'', PyInt (int i))] tr of
        (Inl e, tr1) \<Rightarrow> Some (mappings, tr1)
      | (Inr m, tr1) \<Rightarrow> GetPortMappings_loop E srv (Suc i) (mappings @ [m]) tr1)"

definition GetPortMappings ::
    "env \<Rightarrow> Service \<Rightarrow> trace \<Rightarrow> ((string \<rightharpoonup> string) list \<times> trace) option" where
  "GetPortMappings E srv tr = GetPortMappings_loop E srv 0 [] tr"

text \<open>
  The loop of \<^verbatim>\<open>Igd.HasPortMapping\<close> over the mappings.  Reading a field that a mapping
  lacks raises \<^verbatim>\<open>KeyError\<close>; the protocol is read only when the port has matched.
\<close>

fun has_mapping :: "(string \<rightharpoonup> string) list \<Rightarrow> int \<Rightarrow> string \<Rightarrow> error + bool" where
  "has_mapping [] p protocol = Inr False"
| "has_mapping (mapping # rest) p protocol =
     (case mapping ''NewExternalPort'' of
        None \<Rightarrow> Inl (KeyError ''NewExternalPort'')
      | Some external_port \<Rightarrow>
          if external_port = py_str p then
            (case mapping ''NewProtocol'' of
               None \<Rightarrow> Inl (KeyError ''NewProtocol'')
             | Some proto \<Rightarrow> if proto = protocol then Inr True else has_mapping rest p protocol)
          else has_mapping rest p protocol)"

definition HasPortMapping ::
    "env \<Rightarrow> Service \<Rightarrow> int \<Rightarrow> string \<Rightarrow> trace \<Rightarrow> ((error + bool) \<times> trace) option" where
  "HasPortMapping E srv p protocol tr =
     (case GetPortMappings E srv tr of
        None \<Rightarrow> None
      | Some (mappings, tr1) \<Rightarrow> Some (has_mapping mappings p protocol, tr1))"

section \<open>Notions used by the statements\<close>

text \<open>
  The key under which \<^verbatim>\<open>_get_services\<close> files a \<^verbatim>\<open><service>\<close> element, when the
  element can be read that far.
\<close>

definition service_key :: "env \<Rightarrow> node \<Rightarrow> string option" where
  "service_key E srv =
     (case service_fields srv of
        Inl e \<Rightarrow> None
      | Inr (service_string, sid, scpd, control, event_sub) \<Rightarrow>
          (case parse_service_id E sid of
             Inl e \<Rightarrow> None
           | Inr parsed_service_id \<Rightarrow> Some parsed_service_id))"

text \<open>
  A service is the one that the constructor builds from the fields of a \<^verbatim>\<open><service>\<close>
  element and the base URL.
\<close>

definition constructed_from :: "env \<Rightarrow> string \<Rightarrow> node \<Rightarrow> Service \<Rightarrow> bool" where
  "constructed_from E base srv s \<longleftrightarrow>
     (case service_fields srv of
        Inl e \<Rightarrow> False
      | Inr (service_string, sid, scpd, control, event_sub) \<Rightarrow>
          fst (Service_init E service_string sid scpd control event_sub base []) = Inr s)"

text \<open>
  The answer to the query \<^verbatim>\<open>service.GetGenericPortMappingEntry(NewPortMappingIndex=i)\<close>
  of \<^verbatim>\<open>GetPortMappings\<close>.
\<close>

definition port_mapping_entry :: "env \<Rightarrow> Service \<Rightarrow> nat \<Rightarrow> error + (string \<rightharpoonup> string)" where
  "port_mapping_entry E srv i =
     fst (dispatch E srv ''GetGenericPortMappingEntry''
            [(''NewPortMappingIndex'', PyInt (int i))] [])"

section \<open>A gateway to try the model on\<close>

text \<open>
  Service descriptions: one action without arguments; one action whose output argument
  carries an empty \<^verbatim>\<open><retval/>\<close>; one action whose argument has the direction
  \<^verbatim>\<open>inout\<close>; the action that lists port mappings.
\<close>

definition status_scpd :: node where
  "status_scpd =
     Element ''#document'' [Element ''scpd'' [Element ''actionList'' [
       Element ''action'' [Element ''name'' [Text ''GetStatusInfo'']]]]]"

definition retval_scpd :: node where
  "retval_scpd =
     Element ''#document'' [Element ''scpd'' [Element ''actionList'' [
       Element ''action'' [
         Element ''name'' [Text ''GetExternalIPAddress''],
         Element ''argumentList'' [
           Element ''argument'' [
             Element ''name'' [Text ''NewExternalIPAddress''],
             Element ''direction'' [Text ''out''],
             Element ''retval'' [],
             Element ''relatedStateVariable'' [Text ''ExternalIPAddress'']]]]]]]"

definition inout_scpd :: node where
  "inout_scpd =
     Element ''#document'' [Element ''scpd'' [Element ''actionList'' [
       Element ''action'' [
         Element ''name'' [Text ''SetTarget''],
         Element ''argumentList'' [
           Element ''argument'' [
             Element ''name'' [Text ''NewTarget''],
             Element ''direction'' [Text ''inout''],
             Element ''relatedStateVariable'' [Text ''Target'']]]]]]]"

definition mappings_scpd :: node where
  "mappings_scpd =
     Element ''#document'' [Element ''scpd'' [Element ''actionList'' [
       Element ''action'' [
         Element ''name'' [Text ''GetGenericPortMappingEntry''],
         Element ''argumentList'' [
           Element ''argument'' [
             Element ''name'' [Text ''NewPortMappingIndex''],
             Element ''direction'' [Text ''in''],
             Element ''relatedStateVariable'' [Text ''PortMappingNumberOfEntries'']],
           Element ''argument'' [
             Element ''name'' [Text ''NewExternalPort''],
             Element ''direction'' [Text ''out''],
             Element ''relatedStateVariable'' [Text ''ExternalPort'']],
           Element ''argument'' [
             Element ''name'' [Text ''NewProtocol''],
             Element ''direction'' [Text ''out''],
             Element ''relatedStateVariable'' [Text ''PortMappingProtocol'']]]]]]]"

text \<open>One \<^verbatim>\<open><service>\<close> element of a device description.\<close>

definition service_element :: "string \<Rightarrow> string \<Rightarrow> string \<Rightarrow> node" where
  "service_element service_string sid scpd =
     Element ''service'' [
       Element ''serviceType'' [Text service_string],
       Element ''serviceId'' [Text sid],
       Element ''SCPDURL'' [Text scpd],
       Element ''controlURL'' [Text ''/ctl''],
       Element ''eventSubURL'' [Text ''/evt'']]"

text \<open>
  Device descriptions: one with a \<^verbatim>\<open><URLBase>\<close> and three services, the third repeating
  the identifier of the first; one with neither.
\<close>

definition gateway_description :: node where
  "gateway_description =
     Element ''#document'' [Element ''root'' [
       Element ''URLBase'' [Text ''http://192.168.1.1:5000/desc''],
       Element ''device'' [
         Element ''deviceType'' [Text ''urn:schemas-upnp-org:device:InternetGatewayDevice:1''],
         Element ''serviceList'' [
           service_element ''urn:schemas-upnp-org:service:WANIPConnection:1''
             ''urn:upnp-org:serviceId:WANIPConn1'' ''/ip.xml'',
           service_element ''urn:schemas-upnp-org:service:WANPPPConnection:1''
             ''urn:upnp-org:serviceId:WANPPPConn1'' ''/ppp.xml'',
           service_element ''urn:schemas-upnp-org:service:WANIPConnection:2''
             ''urn:upnp-org:serviceId:WANIPConn1'' ''/ip2.xml'']]]]"

definition bare_description :: node where
  "bare_description =
     Element ''#document'' [Element ''root'' [
       Element ''device'' [
         Element ''deviceType'' [Text ''urn:schemas-upnp-org:device:Basic:1'']]]]"

text \<open>
  The collaborators of the example.  The text of a document is abbreviated to a name.
  The transport is a parameter, so that a request can be made to fail; the gateway holds
  two port mappings.
\<close>

definition gateway :: "(string \<Rightarrow> error + string) \<Rightarrow> env" where
  "gateway http =
     \<lparr>parseString = (\<lambda>text.
          if text = ''gateway'' then Inr gateway_description
          else if text = ''bare'' then Inr bare_description
          else if text = ''status'' then Inr status_scpd
          else if text = ''retval'' then Inr retval_scpd
          else if text = ''inout'' then Inr inout_scpd
          else if text = ''mappings'' then Inr mappings_scpd
          else Inl ExpatError),
      make_http_request = http,
      parse_http_header = (\<lambda>resp header.
          if header = ''Location'' then Inr resp else Inl (KeyError header)),
      parse_service_id = (\<lambda>sid.
          case sid of None \<Rightarrow> Inl TypeError | Some s \<Rightarrow> Inr (last (split CHR '':'' s))),
      urlparse = (\<lambda>url.
          if url = Some ''http://192.168.1.1:5000/desc''
          then Inr \<lparr>scheme = ''http'', netloc = ''192.168.1.1:5000''\<rparr>
          else if url = Some ''http://10.0.0.138:80/root.xml''
          then Inr \<lparr>scheme = ''http'', netloc = ''10.0.0.138:80''\<rparr>
          else Inl (ValueError ''url'')),
      SOAP_send = (\<lambda>srv a action_kwargs.
          if action_kwargs = [(''NewPortMappingIndex'', PyInt 0)]
          then Inr [''NewExternalPort'' \<mapsto> ''80'', ''NewProtocol'' \<mapsto> ''TCP'']
          else if action_kwargs = [(''NewPortMappingIndex'', PyInt 1)]
          then Inr [''NewExternalPort'' \<mapsto> ''443'', ''NewProtocol'' \<mapsto> ''TCP'']
          else Inl SOAPError)\<rparr>"

text \<open>A transport that serves every service description, and one where a request fails.\<close>

definition http_up :: "string \<Rightarrow> error + string" where
  "http_up url =
     (if url = ''http://192.168.1.1:5000/ip.xml'' then Inr ''status''
      else if url = ''http://192.168.1.1:5000/ppp.xml'' then Inr ''mappings''
      else if url = ''http://192.168.1.1:5000/ip2.xml'' then Inr ''retval''
      else Inl TransportError)"

definition http_ppp_down :: "string \<Rightarrow> error + string" where
  "http_ppp_down url =
     (if url = ''http://192.168.1.1:5000/ppp.xml'' then Inl TransportError else http_up url)"

definition http_ip_down :: "string \<Rightarrow> error + string" where
  "http_ip_down url =
     (if url = ''http://192.168.1.1:5000/ip.xml'' then Inl TransportError else http_up url)"

text \<open>Devices whose description and base URL have been retrieved, with no service yet.\<close>

definition gateway_device :: SSDPDevice where
  "gateway_device =
     \<lparr>response = ''http://10.0.0.138:80/root.xml'', description = Some ''gateway'',
      device_type = Some ''urn:schemas-upnp-org:device:InternetGatewayDevice:1'',
      base_url = Some ''http://192.168.1.1:5000'', services = []\<rparr>"

definition bare_device :: SSDPDevice where
  "bare_device =
     \<lparr>response = ''http://10.0.0.138:80/root.xml'', description = Some ''bare'',
      device_type = Some ''urn:schemas-upnp-org:device:Basic:1'',
      base_url = Some ''http://10.0.0.138:80'', services = []\<rparr>"

text \<open>A service under construction, whose description has been fetched.\<close>

definition fetched_service :: "string \<Rightarrow> Service" where
  "fetched_service text =
     \<lparr>service = ''urn:schemas-upnp-org:service:WANIPConnection:1'',
      service_type = ''WANIPConnection'', version = 1,
      service_id = Some ''urn:upnp-org:serviceId:WANIPConn1'', scpd_url = Some ''/ip.xml'',
      control_url = Some ''/ctl'', event_sub_url = Some ''/evt'',
      service_base_url = ''http://192.168.1.1:5000'', actions = [],
      service_description = Some text\<rparr>"

text \<open>The service of the gateway that lists port mappings, its actions parsed.\<close>

definition mappings_service :: Service where
  "mappings_service = fst (snd (get_actions (gateway http_up) (fetched_service ''mappings'') []))"

text \<open>
  A stand-in for the calls that the model leaves open, and a gateway whose first port
  mapping comes without the field \<^verbatim>\<open>NewExternalPort\<close>.
\<close>

definition no_other_call ::
    "Service \<Rightarrow> string \<Rightarrow> (string \<times> pyvalue) list \<Rightarrow> trace \<Rightarrow> (error + pyobject) \<times> Service \<times> trace" where
  "no_other_call self nm action_kwargs tr = (Inl TypeError, self, tr)"

definition patchy_gateway :: env where
  "patchy_gateway =
     (gateway http_up)\<lparr>SOAP_send := (\<lambda>srv a action_kwargs.
          if action_kwargs = [(''NewPortMappingIndex'', PyInt 0)]
          then Inr [''NewProtocol'' \<mapsto> ''TCP'']
          else if action_kwargs = [(''NewPortMappingIndex'', PyInt 1)]
          then Inr [''NewExternalPort'' \<mapsto> ''80'', ''NewProtocol'' \<mapsto> ''TCP'']
          else Inl SOAPError)\<rparr>"

section \<open>Unfolding the model on concrete inputs\<close>

lemmas dom_defs =
  getElementsByTagName_def element_text_def first_node_value_def

lemmas example_defs =
  gateway_def http_up_def http_ppp_down_def http_ip_down_def gateway_device_def bare_device_def
  fetched_service_def gateway_description_def bare_description_def service_element_def
  status_scpd_def retval_scpd_def inout_scpd_def mappings_scpd_def

lemmas int_defs =
  py_int_def strip_def is_space_def unsigned_value_def is_digit_def digit_value_def

lemmas service_defs =
  get_services_def service_fields_def Service_init_def Service_get_description_def
  get_actions_def get_service_type_def get_service_version_def parse_action_def
  parse_argument_def Action_init_def

section \<open>The base URL of a device\<close>

text \<open>
  Claim C1.  A device whose description has been retrieved and parses, and whose
  response carries the \<^verbatim>\<open>Location\<close> header.  When the description holds a \<^verbatim>\<open><URLBase>\<close>
  element whose first child is the text of a URL, the base URL is the scheme and the
  network location of that URL, joined by \<^verbatim>\<open>://\<close>, whatever the header holds.  When the
  description holds no \<^verbatim>\<open><URLBase>\<close> element, the base URL is made in the same way from
  the value of the header.
\<close>

theorem base_url_from_URLBase_or_Location:
  assumes "description self = Some d"
      and "parse_http_header E (response self) ''Location'' = Inr location"
      and "parseString E d = Inr root"
  shows "(\<forall>u us url cs p.
            getElementsByTagName ''URLBase'' root = u # us \<and> childNodes u = Text url # cs
              \<and> urlparse E (Some url) = Inr p
            \<longrightarrow> get_base_url E self tr
                  = (Inr (scheme p @ ''://'' @ netloc p),
                     self\<lparr>base_url := Some (scheme p @ ''://'' @ netloc p)\<rparr>,
                     tr @ [XmlParse d]))
       \<and> (\<forall>p.
            getElementsByTagName ''URLBase'' root = [] \<and> urlparse E (Some location) = Inr p
            \<longrightarrow> get_base_url E self tr
                  = (Inr (scheme p @ ''://'' @ netloc p),
                     self\<lparr>base_url := Some (scheme p @ ''://'' @ netloc p)\<rparr>,
                     tr @ [XmlParse d]))"
  using assms
  by (auto simp: get_base_url_def element_text_def first_node_value_def Let_def)

theorem base_url_from_URLBase_or_Location_witness:
  "get_base_url (gateway http_up) (gateway_device\<lparr>base_url := None\<rparr>) []
     = (Inr ''http://192.168.1.1:5000'', gateway_device, [XmlParse ''gateway''])
   \<and> get_base_url (gateway http_up) (bare_device\<lparr>base_url := None\<rparr>) []
     = (Inr ''http://10.0.0.138:80'', bare_device, [XmlParse ''bare''])"
  using base_url_from_URLBase_or_Location
          [of "gateway_device\<lparr>base_url := None\<rparr>" "''gateway''" "gateway http_up"
              "''http://10.0.0.138:80/root.xml''" gateway_description "[]"]
        base_url_from_URLBase_or_Location
          [of "bare_device\<lparr>base_url := None\<rparr>" "''bare''" "gateway http_up"
              "''http://10.0.0.138:80/root.xml''" bare_description "[]"]
  by (simp add: example_defs dom_defs)

section \<open>The services of a device\<close>

lemma services_loop_append:
  "services_loop E base (xs @ ys) acc tr =
     (case services_loop E base xs acc tr of
        (Inl e, tr1) \<Rightarrow> (Inl e, tr1)
      | (Inr acc1, tr1) \<Rightarrow> services_loop E base ys acc1 tr1)"
  by (induction xs arbitrary: acc tr) (auto split: sum.splits prod.splits)

lemma Service_init_fetch_fails:
  assumes "get_service_type st = Inr ty" and "get_service_version st = Inr ver"
      and "make_http_request E (base @ scpd) = Inl e"
  shows "Service_init E (Some st) sid (Some scpd) control event_sub base tr
           = (Inl e, tr @ [HttpRequest (base @ scpd)])"
  using assms by (simp add: Service_init_def Service_get_description_def Let_def)

text \<open>
  Claim C4 as it stands does not hold.  The gateway declares three services; the request
  for the description of the first fails, the one for the second would be answered.
  \<^verbatim>\<open>_get_services\<close> raises the error after that one request and the dictionary of the
  device stays empty: the second service is not in it.
\<close>

theorem sibling_services_survive_counterexample:
  "make_http_request (gateway http_ip_down) ''http://192.168.1.1:5000/ppp.xml'' = Inr ''mappings''
   \<and> services gateway_device = []
   \<and> get_services (gateway http_ip_down) gateway_device []
       = (Inl TransportError, gateway_device,
          [XmlParse ''gateway'', HttpRequest ''http://192.168.1.1:5000/ip.xml''])"
  by (simp add: example_defs dom_defs service_defs int_defs)

text \<open>
  Claim C4, amended.  When the request for the description of a declared service fails,
  the services declared before it having been constructed, \<^verbatim>\<open>_get_services\<close> raises that
  error and the construction of the services ends there: the failed request is the last
  event, so no later service is fetched, and the device is left as it was, with an empty
  dictionary of services.
\<close>

theorem scpd_fetch_failure_aborts_siblings:
  assumes dev: "description self = Some d" "base_url self = Some base" "services self = []"
               "parseString E d = Inr root"
      and elems: "getElementsByTagName ''service'' root = earlier @ srv # later"
      and before: "services_loop E base earlier [] (tr @ [XmlParse d]) = (Inr built, tr1)"
      and srv: "service_fields srv = Inr (Some st, sid, Some scpd, control, event_sub)"
               "parse_service_id E sid = Inr k" "k \<notin> fst ` set built"
               "get_service_type st = Inr ty" "get_service_version st = Inr ver"
      and fetch: "make_http_request E (base @ scpd) = Inl e"
  shows "get_services E self tr = (Inl e, self, tr1 @ [HttpRequest (base @ scpd)])"
proof -
  have "services_loop E base (srv # later) built tr1
          = (Inl e, tr1 @ [HttpRequest (base @ scpd)])"
    using srv Service_init_fetch_fails [OF srv(4) srv(5) fetch] by simp
  then have "services_loop E base (earlier @ srv # later) [] (tr @ [XmlParse d])
          = (Inl e, tr1 @ [HttpRequest (base @ scpd)])"
    using before by (simp add: services_loop_append)
  then show ?thesis using dev elems by (simp add: get_services_def)
qed

theorem scpd_fetch_failure_aborts_siblings_witness:
  "get_services (gateway http_ppp_down) gateway_device []
     = (Inl TransportError, gateway_device,
        [XmlParse ''gateway'', HttpRequest ''http://192.168.1.1:5000/ip.xml'',
         XmlParse ''status'', HttpRequest ''http://192.168.1.1:5000/ppp.xml''])"
proof -
  let ?E = "gateway http_ppp_down"
  let ?ip = "service_element ''urn:schemas-upnp-org:service:WANIPConnection:1''
               ''urn:upnp-org:serviceId:WANIPConn1'' ''/ip.xml''"
  let ?ppp = "service_element ''urn:schemas-upnp-org:service:WANPPPConnection:1''
               ''urn:upnp-org:serviceId:WANPPPConn1'' ''/ppp.xml''"
  let ?ip2 = "service_element ''urn:schemas-upnp-org:service:WANIPConnection:2''
               ''urn:upnp-org:serviceId:WANIPConn1'' ''/ip2.xml''"
  have dev: "description gateway_device = Some ''gateway''"
            "base_url gateway_device = Some ''http://192.168.1.1:5000''"
            "services gateway_device = []"
            "parseString ?E ''gateway'' = Inr gateway_description"
    by (simp_all add: example_defs)
  have elems: "getElementsByTagName ''service'' gateway_description = [?ip] @ ?ppp # [?ip2]"
    by (simp add: example_defs dom_defs)
  have "\<exists>built. services_loop ?E ''http://192.168.1.1:5000'' [?ip] [] ([] @ [XmlParse ''gateway''])
          = (Inr built, [XmlParse ''gateway'', HttpRequest ''http://192.168.1.1:5000/ip.xml'',
                         XmlParse ''status''])
        \<and> ''WANPPPConn1'' \<notin> fst ` set built"
    by (simp add: example_defs dom_defs service_defs int_defs)
  then obtain built where
    before: "services_loop ?E ''http://192.168.1.1:5000'' [?ip] [] ([] @ [XmlParse ''gateway''])
          = (Inr built, [XmlParse ''gateway'', HttpRequest ''http://192.168.1.1:5000/ip.xml'',
                         XmlParse ''status''])"
    and new: "''WANPPPConn1'' \<notin> fst ` set built"
    by blast
  have srv: "service_fields ?ppp
               = Inr (Some ''urn:schemas-upnp-org:service:WANPPPConnection:1'',
                      Some ''urn:upnp-org:serviceId:WANPPPConn1'', Some ''/ppp.xml'',
                      Some ''/ctl'', Some ''/evt'')"
            "parse_service_id ?E (Some ''urn:upnp-org:serviceId:WANPPPConn1'') = Inr ''WANPPPConn1''"
    by (simp_all add: example_defs dom_defs service_defs)
  have ty: "get_service_type ''urn:schemas-upnp-org:service:WANPPPConnection:1''
              = Inr ''WANPPPConnection''"
           "get_service_version ''urn:schemas-upnp-org:service:WANPPPConnection:1'' = Inr 1"
    by (simp_all add: service_defs int_defs)
  have fetch: "make_http_request ?E (''http://192.168.1.1:5000'' @ ''/ppp.xml'') = Inl TransportError"
    by (simp add: example_defs)
  from scpd_fetch_failure_aborts_siblings
         [OF dev elems before srv new ty fetch]
  show ?thesis by simp
qed

lemma services_loop_extends:
  "services_loop E base xs acc tr = (Inr m, tr1) \<Longrightarrow> \<exists>ys. m = acc @ ys"
proof (induction xs arbitrary: acc tr)
  case Nil
  then show ?case by simp
next
  case (Cons x xs)
  then show ?case
    by (fastforce split: sum.splits prod.splits if_splits)
qed

lemma services_loop_Nil:
  assumes "services_loop E base xs [] tr = (Inr [], tr1)"
  shows "xs = []"
proof (cases xs)
  case Nil
  then show ?thesis .
next
  case (Cons x rest)
  with assms show ?thesis
    by (auto split: sum.splits prod.splits dest!: services_loop_extends)
qed

text \<open>
  Claim C5 as it stands does not hold.  For a device that declares no service the
  dictionary computed is empty, the guard takes it for not yet computed, and the second
  call parses the description once more.
\<close>

theorem services_map_cached_counterexample:
  "get_services (gateway http_up) bare_device [] = (Inr [], bare_device, [XmlParse ''bare''])
   \<and> get_services (gateway http_up) bare_device [XmlParse ''bare'']
       = (Inr [], bare_device, [XmlParse ''bare'', XmlParse ''bare''])"
  by (simp add: example_defs dom_defs service_defs)

text \<open>
  Claim C5, amended.  After a call of \<^verbatim>\<open>_get_services\<close> that returned a dictionary: when
  the dictionary is not empty, every later call returns it and leaves the device and the
  trace as they are, whatever the collaborators would do, so nothing is parsed, fetched
  or constructed again; when it is empty, a later call parses the description again and
  returns the empty dictionary.
\<close>

theorem services_map_cached_when_nonempty:
  assumes "get_services E self tr = (Inr m, self1, tr1)"
  shows "(m \<noteq> [] \<longrightarrow> (\<forall>E1 tr2. get_services E1 self1 tr2 = (Inr m, self1, tr2)))
       \<and> (m = [] \<longrightarrow> (\<forall>tr2. \<exists>d. description self = Some d
                          \<and> get_services E self1 tr2 = (Inr [], self1, tr2 @ [XmlParse d])))"
proof (cases "services self = []")
  case False
  with assms show ?thesis
    by (auto simp: get_services_def split: option.splits)
next
  case True
  from assms obtain d base where d: "description self = Some d" and b: "base_url self = Some base"
    by (auto simp: get_services_def split: option.splits)
  from assms True d b obtain root where r: "parseString E d = Inr root"
    by (auto simp: get_services_def split: sum.splits)
  from assms True d b r have
    loop: "services_loop E base (getElementsByTagName ''service'' root) [] (tr @ [XmlParse d])
             = (Inr m, tr1)"
    and s1: "self1 = self\<lparr>services := m\<rparr>"
    by (auto simp: get_services_def split: sum.splits prod.splits)
  show ?thesis
  proof (intro conjI impI allI)
    fix E1 tr2
    assume "m \<noteq> []"
    then show "get_services E1 self1 tr2 = (Inr m, self1, tr2)"
      using s1 d b by (simp add: get_services_def)
  next
    fix tr2
    assume m: "m = []"
    with loop have "getElementsByTagName ''service'' root = []"
      by (auto dest: services_loop_Nil)
    then have "get_services E self1 tr2 = (Inr [], self1, tr2 @ [XmlParse d])"
      using s1 d b r m True by (simp add: get_services_def)
    with d show "\<exists>d. description self = Some d
                   \<and> get_services E self1 tr2 = (Inr [], self1, tr2 @ [XmlParse d])"
      by simp
  qed
qed

theorem services_map_cached_when_nonempty_witness:
  "\<exists>m self1 tr1.
      get_services (gateway http_up) gateway_device [] = (Inr m, self1, tr1) \<and> m \<noteq> []
    \<and> get_services (gateway http_ip_down) self1 tr1 = (Inr m, self1, tr1)"
proof -
  have "\<exists>m self1 tr1.
      get_services (gateway http_up) gateway_device [] = (Inr m, self1, tr1) \<and> m \<noteq> []"
    by (simp add: example_defs dom_defs service_defs int_defs)
  then obtain m self1 tr1 where
    g: "get_services (gateway http_up) gateway_device [] = (Inr m, self1, tr1)" and m: "m \<noteq> []"
    by blast
  from services_map_cached_when_nonempty [OF g] m
  have "get_services (gateway http_ip_down) self1 tr1 = (Inr m, self1, tr1)" by blast
  with g m show ?thesis by blast
qed

lemma Service_init_result:
  "fst (Service_init E a b c d e base tr) = fst (Service_init E a b c d e base [])"
  by (auto simp: Service_init_def Service_get_description_def get_actions_def Let_def
           split: option.splits sum.splits)

lemma find_skip_other_key:
  "service_key E x = Some k \<Longrightarrow> k1 \<noteq> k \<Longrightarrow>
     find (\<lambda>y. service_key E y = Some k1) (x # xs) = find (\<lambda>y. service_key E y = Some k1) xs"
  by simp

lemma services_loop_first_kept:
  assumes "services_loop E base xs acc tr = (Inr m, tr1)"
  shows "\<exists>ys. m = acc @ ys
          \<and> (distinct (map fst acc) \<longrightarrow> distinct (map fst m))
          \<and> (\<forall>x \<in> set xs. \<exists>k. service_key E x = Some k \<and> k \<in> fst ` set m)
          \<and> (\<forall>k s. (k, s) \<in> set ys \<longrightarrow> k \<notin> fst ` set acc
                \<and> (\<exists>x. find (\<lambda>y. service_key E y = Some k) xs = Some x
                         \<and> constructed_from E base x s))"
  using assms
proof (induction xs arbitrary: acc tr)
  case Nil
  then show ?case by simp
next
  case (Cons x xs)
  from Cons.prems obtain st sid scpd control ev k where
    f: "service_fields x = Inr (st, sid, scpd, control, ev)" and k: "parse_service_id E sid = Inr k"
    by (auto split: sum.splits)
  then have key: "service_key E x = Some k" by (simp add: service_key_def)
  show ?case
  proof (cases "k \<in> set (map fst acc)")
    case True
    with Cons.prems f k have "services_loop E base xs acc tr = (Inr m, tr1)" by simp
    from Cons.IH [OF this] obtain ys where
      ys1: "m = acc @ ys" and ys2: "distinct (map fst acc) \<longrightarrow> distinct (map fst m)" and
      ys3: "\<forall>x \<in> set xs. \<exists>k. service_key E x = Some k \<and> k \<in> fst ` set m" and
      ys4: "\<forall>k s. (k, s) \<in> set ys \<longrightarrow> k \<notin> fst ` set acc
                \<and> (\<exists>x. find (\<lambda>y. service_key E y = Some k) xs = Some x
                         \<and> constructed_from E base x s)"
      by blast
    have 4: "\<forall>k1 s. (k1, s) \<in> set ys \<longrightarrow> k1 \<notin> fst ` set acc
                \<and> (\<exists>y. find (\<lambda>y. service_key E y = Some k1) (x # xs) = Some y
                         \<and> constructed_from E base y s)"
    proof (intro allI impI)
      fix k1 s
      assume "(k1, s) \<in> set ys"
      with ys4 have a: "k1 \<notin> fst ` set acc" and
        b: "\<exists>x. find (\<lambda>y. service_key E y = Some k1) xs = Some x \<and> constructed_from E base x s"
        by blast+
      from a True have "k1 \<noteq> k" by auto
      from find_skip_other_key [OF key this] a b
      show "k1 \<notin> fst ` set acc
                \<and> (\<exists>y. find (\<lambda>y. service_key E y = Some k1) (x # xs) = Some y
                         \<and> constructed_from E base y s)"
        by simp
    qed
    have "k \<in> fst ` set m" using True ys1 by auto
    with ys3 key have 3: "\<forall>y \<in> set (x # xs). \<exists>k. service_key E y = Some k \<and> k \<in> fst ` set m"
      by simp
    from ys1 ys2 3 4 show ?thesis by blast
  next
    case False
    with Cons.prems f k obtain s tr2 where
      i: "Service_init E st sid scpd control ev base tr = (Inr s, tr2)" and
      l: "services_loop E base xs (acc @ [(k, s)]) tr2 = (Inr m, tr1)"
      by (auto split: sum.splits prod.splits)
    from i have "fst (Service_init E st sid scpd control ev base []) = Inr s"
      using Service_init_result [of E st sid scpd control ev base tr] by simp
    with f have c: "constructed_from E base x s" by (simp add: constructed_from_def)
    from Cons.IH [OF l] obtain ys where
      ys1: "m = (acc @ [(k, s)]) @ ys" and
      ys2: "distinct (map fst (acc @ [(k, s)])) \<longrightarrow> distinct (map fst m)" and
      ys3: "\<forall>x \<in> set xs. \<exists>k. service_key E x = Some k \<and> k \<in> fst ` set m" and
      ys4: "\<forall>k1 s1. (k1, s1) \<in> set ys \<longrightarrow> k1 \<notin> fst ` set (acc @ [(k, s)])
                \<and> (\<exists>x. find (\<lambda>y. service_key E y = Some k1) xs = Some x
                         \<and> constructed_from E base x s1)"
      by blast
    have 1: "m = acc @ ((k, s) # ys)" using ys1 by simp
    have 2: "distinct (map fst acc) \<longrightarrow> distinct (map fst m)" using ys2 False by simp
    have "k \<in> fst ` set m" using 1 by force
    with ys3 key have 3: "\<forall>y \<in> set (x # xs). \<exists>k. service_key E y = Some k \<and> k \<in> fst ` set m"
      by simp
    have 4: "\<forall>k1 s1. (k1, s1) \<in> set ((k, s) # ys) \<longrightarrow> k1 \<notin> fst ` set acc
                \<and> (\<exists>y. find (\<lambda>y. service_key E y = Some k1) (x # xs) = Some y
                         \<and> constructed_from E base y s1)"
    proof (intro allI impI)
      fix k1 s1
      assume "(k1, s1) \<in> set ((k, s) # ys)"
      then consider "k1 = k" "s1 = s" | "(k1, s1) \<in> set ys" by auto
      then show "k1 \<notin> fst ` set acc
                \<and> (\<exists>y. find (\<lambda>y. service_key E y = Some k1) (x # xs) = Some y
                         \<and> constructed_from E base y s1)"
      proof cases
        case 1
        with key c False show ?thesis by simp
      next
        case 2
        with ys4 have a: "k1 \<notin> fst ` set (acc @ [(k, s)])" and
          b: "\<exists>x. find (\<lambda>y. service_key E y = Some k1) xs = Some x
                  \<and> constructed_from E base x s1"
          by blast+
        from a have "k1 \<noteq> k" and a1: "k1 \<notin> fst ` set acc" by auto
        from find_skip_other_key [OF key this(1)] a1 b show ?thesis by simp
      qed
    qed
    from 1 2 3 4 show ?thesis by blast
  qed
qed

lemma services_loop_skips_known_key:
  assumes "service_key E x = Some k" and "k \<in> fst ` set acc"
  shows "services_loop E base (x # xs) acc tr = services_loop E base xs acc tr"
proof -
  from assms(1) obtain st sid scpd control ev where
    f: "service_fields x = Inr (st, sid, scpd, control, ev)" and
    p: "parse_service_id E sid = Inr k"
    by (auto simp: service_key_def split: sum.splits)
  from assms(2) have "k \<in> set (map fst acc)" by simp
  with f p show ?thesis by simp
qed

text \<open>
  Claim C8.  After \<^verbatim>\<open>_get_services\<close> has succeeded on a device without services: the
  keys of the dictionary are distinct; every \<^verbatim>\<open><service>\<close> element, a repeated one too,
  has a key and that key is in the dictionary; and the service stored under a key is the
  one constructed from the first \<^verbatim>\<open><service>\<close> element, in document order, that has this
  key.  An element whose key is in the dictionary already is passed over: the loop goes
  on as if the element were not there, with no request, no construction and no error.
\<close>

theorem first_service_of_a_key_is_kept:
  assumes "get_services E self tr = (Inr m, self1, tr1)"
      and "services self = []"
      and "description self = Some d" and "parseString E d = Inr root"
      and "base_url self = Some base"
  shows "distinct (map fst m)
       \<and> (\<forall>srv \<in> set (getElementsByTagName ''service'' root).
             \<exists>k. service_key E srv = Some k \<and> k \<in> fst ` set m)
       \<and> (\<forall>k s. (k, s) \<in> set m \<longrightarrow>
             (\<exists>srv. find (\<lambda>x. service_key E x = Some k) (getElementsByTagName ''service'' root)
                      = Some srv
                   \<and> constructed_from E base srv s))
       \<and> (\<forall>x xs acc tr0 k. service_key E x = Some k \<and> k \<in> fst ` set acc \<longrightarrow>
             services_loop E base (x # xs) acc tr0 = services_loop E base xs acc tr0)"
proof -
  from assms have
    "services_loop E base (getElementsByTagName ''service'' root) [] (tr @ [XmlParse d])
       = (Inr m, tr1)"
    by (auto simp: get_services_def split: sum.splits prod.splits)
  from services_loop_first_kept [OF this] have kept:
    "distinct (map fst m)
       \<and> (\<forall>srv \<in> set (getElementsByTagName ''service'' root).
             \<exists>k. service_key E srv = Some k \<and> k \<in> fst ` set m)
       \<and> (\<forall>k s. (k, s) \<in> set m \<longrightarrow>
             (\<exists>srv. find (\<lambda>x. service_key E x = Some k) (getElementsByTagName ''service'' root)
                      = Some srv
                   \<and> constructed_from E base srv s))"
    by simp
  have skipped: "\<forall>x xs acc tr0 k. service_key E x = Some k \<and> k \<in> fst ` set acc \<longrightarrow>
             services_loop E base (x # xs) acc tr0 = services_loop E base xs acc tr0"
    using services_loop_skips_known_key by blast
  from kept skipped show ?thesis by (elim conjE) (intro conjI; assumption)
qed

theorem first_service_of_a_key_is_kept_witness:
  "\<exists>m self1 tr1.
      get_services (gateway http_up) gateway_device [] = (Inr m, self1, tr1)
    \<and> map fst m = [''WANIPConn1'', ''WANPPPConn1'']
    \<and> map (version \<circ> snd) m = [1, 1]
    \<and> distinct (map fst m)
    \<and> (\<forall>srv \<in> set (getElementsByTagName ''service'' gateway_description).
          \<exists>k. service_key (gateway http_up) srv = Some k \<and> k \<in> fst ` set m)
    \<and> (\<forall>k s. (k, s) \<in> set m \<longrightarrow>
          (\<exists>srv. find (\<lambda>x. service_key (gateway http_up) x = Some k)
                    (getElementsByTagName ''service'' gateway_description) = Some srv
                \<and> constructed_from (gateway http_up) ''http://192.168.1.1:5000'' srv s))"
proof -
  have "\<exists>m self1 tr1.
      get_services (gateway http_up) gateway_device [] = (Inr m, self1, tr1)
    \<and> map fst m = [''WANIPConn1'', ''WANPPPConn1'']
    \<and> map (version \<circ> snd) m = [1, 1]"
    by (simp add: example_defs dom_defs service_defs int_defs)
  then obtain m self1 tr1 where
    g: "get_services (gateway http_up) gateway_device [] = (Inr m, self1, tr1)" and
    k: "map fst m = [''WANIPConn1'', ''WANPPPConn1'']" and
    v: "map (version \<circ> snd) m = [1, 1]"
    by (elim exE conjE)
  have dev: "services gateway_device = []" "description gateway_device = Some ''gateway''"
            "parseString (gateway http_up) ''gateway'' = Inr gateway_description"
            "base_url gateway_device = Some ''http://192.168.1.1:5000''"
    by (simp_all add: example_defs)
  from first_service_of_a_key_is_kept [OF g dev] g k v show ?thesis
    by (elim conjE) (intro exI conjI; assumption)
qed

section \<open>Segments of a service string\<close>

lemma split_not_Nil: "split c s \<noteq> []"
  by (induction s) (auto split: list.splits)

lemma split_no_sep: "c \<notin> set w \<Longrightarrow> split c w = [w]"
  by (induction w) auto

lemma split_append_sep: "c \<notin> set w \<Longrightarrow> split c (w @ c # r) = w # split c r"
  by (induction w) (auto split: list.splits)

lemma split_join:
  "ws \<noteq> [] \<Longrightarrow> \<forall>w \<in> set ws. c \<notin> set w \<Longrightarrow> split c (join c ws) = ws"
  by (induction c ws rule: join.induct) (auto simp: split_no_sep split_append_sep)

lemma join_split: "join c (split c s) = s"
proof (induction s)
  case Nil
  show ?case by simp
next
  case (Cons x xs)
  obtain v vs where "split c xs = v # vs"
    using split_not_Nil [of c xs] by (cases "split c xs") auto
  with Cons show ?case by (cases vs) auto
qed

lemma Service_get_description_fields:
  "Service_get_description E self tr = (Inr b, self1, tr1) \<Longrightarrow>
     service_type self1 = service_type self \<and> version self1 = version self"
  by (auto simp: Service_get_description_def Let_def split: option.splits sum.splits)

lemma get_actions_fields:
  "get_actions E self tr = (Inr b, self1, tr1) \<Longrightarrow>
     service_type self1 = service_type self \<and> version self1 = version self"
  by (auto simp: get_actions_def split: option.splits sum.splits)

lemma Service_init_fields:
  assumes "Service_init E (Some s) sid scpd control event_sub base tr = (Inr srv, tr1)"
  shows "get_service_type s = Inr (service_type srv) \<and> get_service_version s = Inr (version srv)"
  using assms
  by (auto simp: Service_init_def Let_def split: sum.splits prod.splits
        dest!: Service_get_description_fields get_actions_fields)

text \<open>
  Claim C7.  A service string made of at least five segments, none of which holds a
  colon, joined by colons: the type name is the fourth segment and the version is the
  fifth segment read by \<^verbatim>\<open>int\<close>, both as the static methods return them and as a
  constructed service stores them.  The witness is the string
  \<^verbatim>\<open>urn:schemas-upnp-org:service:WANIPConnection:1\<close>, with the type name
  \<^verbatim>\<open>WANIPConnection\<close> and the version 1.
\<close>

theorem service_type_and_version_segments:
  assumes "\<forall>w \<in> set segments. CHR '':'' \<notin> set w" and "5 \<le> length segments"
  shows "get_service_type (join CHR '':'' segments) = Inr (segments ! 3)
       \<and> get_service_version (join CHR '':'' segments) = py_int (segments ! 4)
       \<and> (\<forall>E sid scpd control event_sub base tr srv tr1.
            Service_init E (Some (join CHR '':'' segments)) sid scpd control event_sub base tr
              = (Inr srv, tr1)
            \<longrightarrow> service_type srv = segments ! 3 \<and> py_int (segments ! 4) = Inr (version srv))"
proof -
  from assms(2) have ne: "segments \<noteq> []" by auto
  have sp: "split CHR '':'' (join CHR '':'' segments) = segments"
    using split_join [OF ne assms(1)] .
  have t: "get_service_type (join CHR '':'' segments) = Inr (segments ! 3)"
    using assms(2) by (simp add: get_service_type_def sp)
  have v: "get_service_version (join CHR '':'' segments) = py_int (segments ! 4)"
    using assms(2) by (simp add: get_service_version_def sp)
  show ?thesis using t v by (auto dest!: Service_init_fields)
qed

theorem service_type_and_version_segments_witness:
  "get_service_type ''urn:schemas-upnp-org:service:WANIPConnection:1'' = Inr ''WANIPConnection''
   \<and> get_service_version ''urn:schemas-upnp-org:service:WANIPConnection:1'' = Inr 1"
  using service_type_and_version_segments
          [of "[''urn'', ''schemas-upnp-org'', ''service'', ''WANIPConnection'', ''1'']"]
  by (simp add: py_int_def strip_def is_space_def unsigned_value_def is_digit_def digit_value_def)

section \<open>Actions and their arguments\<close>

lemma classify_bad:
  "a \<in> set argument_list \<Longrightarrow> direction a \<noteq> Some ''in'' \<Longrightarrow> direction a \<noteq> Some ''out'' \<Longrightarrow>
     \<exists>msg. classify argument_list ins outs = Inl (ValueError msg)"
  by (induction argument_list arbitrary: ins outs) auto

lemma parse_actions_all_parsed:
  "parse_actions nodes acc = Inr r \<Longrightarrow> a \<in> set nodes \<Longrightarrow> \<exists>act. parse_action a = Inr act"
  by (induction nodes arbitrary: acc) (auto split: sum.splits)

lemma classify_Inr:
  "classify argument_list ins outs = Inr (ins1, outs1) \<Longrightarrow>
     ins1 = ins @ filter (\<lambda>a. direction a = Some ''in'') argument_list
   \<and> outs1 = outs @ filter (\<lambda>a. direction a = Some ''out'') argument_list
   \<and> (\<forall>a \<in> set argument_list. direction a = Some ''in'' \<or> direction a = Some ''out'')"
proof (induction argument_list arbitrary: ins outs)
  case Nil
  then show ?case by simp
next
  case (Cons a rest)
  show ?case
  proof (cases "direction a = Some ''in''")
    case True
    with Cons.prems have "classify rest (ins @ [a]) outs = Inr (ins1, outs1)" by simp
    from Cons.IH [OF this] True show ?thesis by simp
  next
    case False
    show ?thesis
    proof (cases "direction a = Some ''out''")
      case True
      with False Cons.prems have "classify rest ins (outs @ [a]) = Inr (ins1, outs1)" by simp
      from Cons.IH [OF this] True False show ?thesis by simp
    next
      case no: False
      with False Cons.prems show ?thesis by simp
    qed
  qed
qed

lemma Action_init_keeps_arguments:
  assumes "Action_init nm argument_list = Inr act"
  shows "arguments act = argument_list
       \<and> args_in act = filter (\<lambda>a. direction a = Some ''in'') argument_list
       \<and> args_out act = filter (\<lambda>a. direction a = Some ''out'') argument_list
       \<and> (\<forall>a \<in> set argument_list. a \<in> set (args_in act) \<or> a \<in> set (args_out act))"
proof -
  from assms obtain ins outs where
    c: "classify argument_list [] [] = Inr (ins, outs)" and
    a: "act = \<lparr>action_name = nm, arguments = argument_list, args_in = ins, args_out = outs\<rparr>"
    by (auto simp: Action_init_def split: sum.splits)
  from classify_Inr [OF c] a show ?thesis by auto
qed

text \<open>
  Claim C2.  An argument list read from the \<^verbatim>\<open><argumentList>\<close> of an \<^verbatim>\<open><action>\<close> element
  of the service description, holding an argument whose direction is neither \<^verbatim>\<open>in\<close> nor
  \<^verbatim>\<open>out\<close>.  The constructor of the action raises \<^verbatim>\<open>ValueError\<close>, which is how the code
  reports an invalid direction; so does the parsing of that element; and \<^verbatim>\<open>_get_actions\<close>
  ends with an exception and leaves the service as it was, no action registered.  No
  argument is ever dropped: an action that has been constructed holds the whole list,
  and each argument of the list is among its input or its output arguments.
\<close>

theorem invalid_direction_fails:
  assumes bad: "a \<in> set argument_list" "direction a \<noteq> Some ''in''" "direction a \<noteq> Some ''out''"
      and doc: "service_description self = Some d" "parseString E d = Inr root"
               "act \<in> set (getElementsByTagName ''action'' root)"
      and act: "element_text ''name'' act = Inr nm"
               "getElementsByTagName ''argumentList'' act = l # ls"
               "parse_arguments (getElementsByTagName ''argument'' l) [] = Inr argument_list"
  shows "(\<exists>msg. Action_init nm argument_list = Inl (ValueError msg))
       \<and> (\<exists>msg. parse_action act = Inl (ValueError msg))
       \<and> (\<exists>e. get_actions E self tr = (Inl e, self, tr @ [XmlParse d]))
       \<and> (\<forall>nm1 list1 act1. Action_init nm1 list1 = Inr act1 \<longrightarrow>
              arguments act1 = list1
            \<and> (\<forall>x \<in> set list1. x \<in> set (args_in act1) \<or> x \<in> set (args_out act1)))"
proof -
  from classify_bad [OF bad] obtain msg where
    c: "classify argument_list [] [] = Inl (ValueError msg)" by blast
  then have i: "Action_init nm argument_list = Inl (ValueError msg)"
    by (simp add: Action_init_def)
  with act have p: "parse_action act = Inl (ValueError msg)"
    by (simp add: parse_action_def)
  have "\<exists>e. parse_actions (getElementsByTagName ''action'' root) [] = Inl e"
  proof (cases "parse_actions (getElementsByTagName ''action'' root) []")
    case (Inl e)
    then show ?thesis by blast
  next
    case (Inr r)
    from parse_actions_all_parsed [OF Inr doc(3)] p show ?thesis by simp
  qed
  then have g: "\<exists>e. get_actions E self tr = (Inl e, self, tr @ [XmlParse d])"
    using doc by (auto simp: get_actions_def)
  have k: "\<forall>nm1 list1 act1. Action_init nm1 list1 = Inr act1 \<longrightarrow>
              arguments act1 = list1
            \<and> (\<forall>x \<in> set list1. x \<in> set (args_in act1) \<or> x \<in> set (args_out act1))"
    using Action_init_keeps_arguments by blast
  from i have i1: "\<exists>msg. Action_init nm argument_list = Inl (ValueError msg)" by blast
  from p have p1: "\<exists>msg. parse_action act = Inl (ValueError msg)" by blast
  from i1 p1 g k show ?thesis by - (intro conjI; assumption)
qed

theorem invalid_direction_fails_witness:
  "(\<exists>msg. Action_init (Some ''SetTarget'')
             [\<lparr>name = Some ''NewTarget'', direction = Some ''inout'', return_value = None,
               related_state_variable = Some ''Target''\<rparr>] = Inl (ValueError msg))
   \<and> (\<exists>e. get_actions (gateway http_up) (fetched_service ''inout'') []
             = (Inl e, fetched_service ''inout'', [XmlParse ''inout'']))"
  using invalid_direction_fails
     [where a = "\<lparr>name = Some ''NewTarget'', direction = Some ''inout'', return_value = None,
                  related_state_variable = Some ''Target''\<rparr>"
        and argument_list = "[\<lparr>name = Some ''NewTarget'', direction = Some ''inout'',
                  return_value = None, related_state_variable = Some ''Target''\<rparr>]"
        and self = "fetched_service ''inout''" and d = "''inout''" and E = "gateway http_up"
        and root = inout_scpd and nm = "Some ''SetTarget''" and tr = "[]" and ls = "[]"
        and act = "Element ''action'' [
         Element ''name'' [Text ''SetTarget''],
         Element ''argumentList'' [
           Element ''argument'' [
             Element ''name'' [Text ''NewTarget''],
             Element ''direction'' [Text ''inout''],
             Element ''relatedStateVariable'' [Text ''Target'']]]]"
        and l = "Element ''argumentList'' [
           Element ''argument'' [
             Element ''name'' [Text ''NewTarget''],
             Element ''direction'' [Text ''inout''],
             Element ''relatedStateVariable'' [Text ''Target'']]]"]
  by (simp add: example_defs dom_defs parse_argument_def)

text \<open>
  What the code does with \<^verbatim>\<open><retval>\<close> where it does not fail: without the element the
  return value is \<^verbatim>\<open>None\<close>, and with an element that starts with text it is that text.
\<close>

lemma parse_argument_retval:
  assumes "element_text ''name'' argument = Inr n"
      and "element_text ''direction'' argument = Inr d"
      and "element_text ''relatedStateVariable'' argument = Inr v"
  shows "getElementsByTagName ''retval'' argument = [] \<Longrightarrow>
           parse_argument argument
             = Inr \<lparr>name = n, direction = d, return_value = None, related_state_variable = v\<rparr>"
    and "getElementsByTagName ''retval'' argument = r # rs \<Longrightarrow> childNodes r = Text t # cs \<Longrightarrow>
           parse_argument argument
             = Inr \<lparr>name = n, direction = d, return_value = Some t, related_state_variable = v\<rparr>"
    and "getElementsByTagName ''retval'' argument = r # rs \<Longrightarrow> childNodes r = [] \<Longrightarrow>
           parse_argument argument = Inl AttributeError"
  using assms by (simp_all add: parse_argument_def element_text_def first_node_value_def)

text \<open>
  Claim C3, where the code departs from the claim.  An \<^verbatim>\<open><argument>\<close> element with an
  empty \<^verbatim>\<open><retval/>\<close> element, the form that the UPnP device architecture prescribes: the
  element has no first child, reading \<^verbatim>\<open>nodeValue\<close> raises \<^verbatim>\<open>AttributeError\<close>, and the
  handler for a missing \<^verbatim>\<open><retval>\<close> catches \<^verbatim>\<open>IndexError\<close> only.  The argument is not
  marked as the return value: parsing it fails, and so does \<^verbatim>\<open>_get_actions\<close>.
\<close>

theorem empty_retval_raises_AttributeError:
  "parse_argument
     (Element ''argument'' [
        Element ''name'' [Text ''NewExternalIPAddress''],
        Element ''direction'' [Text ''out''],
        Element ''retval'' [],
        Element ''relatedStateVariable'' [Text ''ExternalIPAddress'']]) = Inl AttributeError
   \<and> get_actions (gateway http_up) (fetched_service ''retval'') []
       = (Inl AttributeError, fetched_service ''retval'', [XmlParse ''retval''])"
  by (simp add: example_defs dom_defs parse_argument_def parse_action_def get_actions_def)

text \<open>
  Claim C6.  An \<^verbatim>\<open><action>\<close> element with no \<^verbatim>\<open><argumentList>\<close> element below it, whose
  required \<^verbatim>\<open><name>\<close> can be read: the action is constructed, with an empty argument
  list and with empty lists of input and output arguments.
\<close>

theorem action_without_argument_list:
  assumes "getElementsByTagName ''argumentList'' action = []"
      and "element_text ''name'' action = Inr nm"
  shows "parse_action action
           = Inr \<lparr>action_name = nm, arguments = [], args_in = [], args_out = []\<rparr>"
  using assms by (simp add: parse_action_def Action_init_def)

theorem action_without_argument_list_witness:
  "parse_action (Element ''action'' [Text '' '', Element ''name'' [Text ''GetStatusInfo''], Text '' ''])
     = Inr \<lparr>action_name = Some ''GetStatusInfo'', arguments = [], args_in = [], args_out = []\<rparr>"
  using action_without_argument_list
     [of "Element ''action'' [Text '' '', Element ''name'' [Text ''GetStatusInfo''], Text '' '']"
         "Some ''GetStatusInfo''"]
  by (simp add: getElementsByTagName_def element_text_def first_node_value_def)

section \<open>Invoking an action by name\<close>

text \<open>
  The name under which \<^verbatim>\<open>GetPortMappings\<close> calls the service is none that ordinary lookup
  finds, so the call goes through \<^verbatim>\<open>__getattr__\<close>.
\<close>

lemma invoke_GetGenericPortMappingEntry:
  "invoke E other srv ''GetGenericPortMappingEntry'' action_kwargs tr =
     (case dispatch E srv ''GetGenericPortMappingEntry'' action_kwargs tr of
        (Inl e, tr1) \<Rightarrow> (Inl e, srv, tr1)
      | (Inr m, tr1) \<Rightarrow> (Inr (Dict m), srv, tr1))"
  by (simp add: invoke_def instance_attributes_def class_attributes_def reserved_name_def)

text \<open>
  Claim C9 as it stands does not hold.  Neither \<^verbatim>\<open>_get_description\<close> nor \<^verbatim>\<open>version\<close> is a
  key of the dictionary of actions, yet ordinary lookup finds both and \<^verbatim>\<open>__getattr__\<close> is
  not asked: calling the first sends a request and returns the description, calling the
  second raises \<^verbatim>\<open>TypeError\<close>.  Neither raises \<^verbatim>\<open>KeyError\<close>.
\<close>

theorem ordinary_attribute_is_no_KeyError_counterexample:
  "map_of (actions mappings_service) (Some ''_get_description'') = None
   \<and> invoke (gateway http_up) no_other_call mappings_service ''_get_description'' [] []
       = (Inr (Str ''status''), mappings_service\<lparr>service_description := Some ''status''\<rparr>,
          [HttpRequest ''http://192.168.1.1:5000/ip.xml''])
   \<and> map_of (actions mappings_service) (Some ''version'') = None
   \<and> invoke (gateway http_up) no_other_call mappings_service ''version'' [] []
       = (Inl TypeError, mappings_service, [])"
  by (simp add: invoke_def instance_attributes_def Service_get_description_def
        mappings_service_def example_defs dom_defs service_defs)

text \<open>
  Claim C9, amended.  A name that is no key of the service's dictionary of actions and
  that ordinary lookup does not find, being neither an attribute assigned by
  \<^verbatim>\<open>__init__\<close>, nor a method or the nested class of the class body, nor of the form
  \<^verbatim>\<open>__x__\<close>: invoking it raises \<^verbatim>\<open>KeyError\<close> with that name, the failed lookup, when the
  attribute is resolved.  The service and the trace are the ones before the call, so
  nothing was sent, and the result is the same whatever the SOAP transport would have
  answered.
\<close>

theorem undeclared_action_is_KeyError:
  assumes "nm \<notin> set instance_attributes" and "nm \<notin> set class_attributes"
      and "\<not> reserved_name nm"
      and "Some nm \<notin> fst ` set (actions self)"
  shows "invoke E other self nm action_kwargs tr = (Inl (KeyError nm), self, tr)"
proof -
  from assms(4) have "map_of (actions self) (Some nm) = None"
    by (simp add: map_of_eq_None_iff)
  then have "dispatch E self nm action_kwargs tr = (Inl (KeyError nm), tr)"
    by (simp add: dispatch_def Service_getattr_def)
  moreover from assms(2) have "nm \<noteq> ''_get_description''"
    by (auto simp: class_attributes_def)
  ultimately show ?thesis using assms(1,2,3) by (simp add: invoke_def)
qed

theorem undeclared_action_is_KeyError_witness:
  "invoke (gateway http_up) no_other_call mappings_service ''DeletePortMapping''
     [(''NewExternalPort'', PyInt 80), (''NewProtocol'', PyStr ''TCP'')] []
     = (Inl (KeyError ''DeletePortMapping''), mappings_service, [])"
  using undeclared_action_is_KeyError
          [of "''DeletePortMapping''" mappings_service "gateway http_up" no_other_call _ "[]"]
  by (simp add: instance_attributes_def class_attributes_def reserved_name_def
        mappings_service_def example_defs dom_defs service_defs)

section \<open>Port mappings of the gateway\<close>

lemma dispatch_result:
  "\<exists>tr1. dispatch E srv nm kw tr = (fst (dispatch E srv nm kw []), tr1)"
  by (simp add: dispatch_def execute_def split: sum.splits)

lemma port_mapping_entry_dispatch:
  "\<exists>tr1. dispatch E srv ''GetGenericPortMappingEntry''
            [(''NewPortMappingIndex'', PyInt (int i))] tr = (port_mapping_entry E srv i, tr1)"
  unfolding port_mapping_entry_def by (rule dispatch_result)

lemma GetPortMappings_loop_stops:
  assumes "isl (port_mapping_entry E srv n)"
      and "\<forall>j<n. \<not> isl (port_mapping_entry E srv j)"
  shows "i \<le> n \<Longrightarrow>
         \<exists>tr1. GetPortMappings_loop E srv i acc tr
                 = Some (acc @ map (\<lambda>j. projr (port_mapping_entry E srv j)) [i..<n], tr1)"
proof (induction "n - i" arbitrary: i acc tr)
  case 0
  then have "i = n" by simp
  with assms(1) obtain e where e: "port_mapping_entry E srv i = Inl e"
    by (cases "port_mapping_entry E srv i") auto
  from port_mapping_entry_dispatch [of E srv i tr] obtain tr2 where
    "dispatch E srv ''GetGenericPortMappingEntry''
            [(''NewPortMappingIndex'', PyInt (int i))] tr = (Inl e, tr2)"
    unfolding e by blast
  then have "GetPortMappings_loop E srv i acc tr = Some (acc, tr2)"
    by (subst GetPortMappings_loop.simps) simp
  then show ?case using \<open>i = n\<close> by simp
next
  case (Suc k)
  then have lt: "i < n" by simp
  with assms(2) obtain m where m: "port_mapping_entry E srv i = Inr m"
    by (cases "port_mapping_entry E srv i") auto
  from port_mapping_entry_dispatch [of E srv i tr] obtain tr2 where
    inv: "dispatch E srv ''GetGenericPortMappingEntry''
            [(''NewPortMappingIndex'', PyInt (int i))] tr = (Inr m, tr2)"
    unfolding m by blast
  from Suc lt have "k = n - Suc i" "Suc i \<le> n" by simp_all
  from Suc.hyps(1) [OF this, of "acc @ [m]" tr2] obtain tr1 where
    r: "GetPortMappings_loop E srv (Suc i) (acc @ [m]) tr2
       = Some ((acc @ [m]) @ map (\<lambda>j. projr (port_mapping_entry E srv j)) [Suc i..<n], tr1)"
    by blast
  have "GetPortMappings_loop E srv i acc tr
       = GetPortMappings_loop E srv (Suc i) (acc @ [m]) tr2"
    using inv by (subst GetPortMappings_loop.simps) simp
  with r m lt have "GetPortMappings_loop E srv i acc tr
       = Some (acc @ map (\<lambda>j. projr (port_mapping_entry E srv j)) [i..<n], tr1)"
    by (simp add: upt_conv_Cons)
  then show ?case by blast
qed

lemma has_mapping_complete:
  "\<forall>m \<in> set ms. m ''NewExternalPort'' \<noteq> None \<and> m ''NewProtocol'' \<noteq> None \<Longrightarrow>
     has_mapping ms p protocol
       = Inr (\<exists>m \<in> set ms. m ''NewExternalPort'' = Some (py_str p)
                          \<and> m ''NewProtocol'' = Some protocol)"
  by (induction ms) auto

lemma has_mapping_sound:
  "has_mapping ms p protocol = Inr True \<Longrightarrow>
     \<exists>m \<in> set ms. m ''NewExternalPort'' = Some (py_str p) \<and> m ''NewProtocol'' = Some protocol"
  by (induction ms) (auto split: option.splits if_splits)

text \<open>
  Claim C10 as it stands does not hold.  The gateway answers two indices; the second
  mapping has the port 80 and the protocol TCP, but the first comes without the field
  \<^verbatim>\<open>NewExternalPort\<close>, and reading it raises \<^verbatim>\<open>KeyError\<close> before the second is looked at:
  \<^verbatim>\<open>HasPortMapping\<close> does not return \<^verbatim>\<open>True\<close>.
\<close>

theorem HasPortMapping_missing_field_counterexample:
  "map_option (length \<circ> fst) (GetPortMappings patchy_gateway mappings_service []) = Some 2
   \<and> (fst (the (GetPortMappings patchy_gateway mappings_service [])) ! 1) ''NewExternalPort''
       = Some (py_str 80)
   \<and> (fst (the (GetPortMappings patchy_gateway mappings_service [])) ! 1) ''NewProtocol''
       = Some ''TCP''
   \<and> map_option fst (HasPortMapping patchy_gateway mappings_service 80 ''TCP'' [])
       = Some (Inl (KeyError ''NewExternalPort''))"
proof -
  let ?E = "patchy_gateway"
  have a: "Service_getattr mappings_service ''GetGenericPortMappingEntry''
            = Inr \<lparr>action_name = Some ''GetGenericPortMappingEntry'',
                   arguments = arguments (snd (hd (actions mappings_service))),
                   args_in = args_in (snd (hd (actions mappings_service))),
                   args_out = args_out (snd (hd (actions mappings_service)))\<rparr>"
    by (simp add: Service_getattr_def mappings_service_def example_defs dom_defs service_defs)
  have e0: "port_mapping_entry ?E mappings_service 0 = Inr [''NewProtocol'' \<mapsto> ''TCP'']"
    by (simp add: port_mapping_entry_def dispatch_def execute_def a) (simp add: patchy_gateway_def)
  have e1: "port_mapping_entry ?E mappings_service (Suc 0)
              = Inr [''NewExternalPort'' \<mapsto> ''80'', ''NewProtocol'' \<mapsto> ''TCP'']"
    by (simp add: port_mapping_entry_def dispatch_def execute_def a) (simp add: patchy_gateway_def)
  have e2: "port_mapping_entry ?E mappings_service (Suc (Suc 0)) = Inl SOAPError"
    by (simp add: port_mapping_entry_def dispatch_def execute_def a) (simp add: patchy_gateway_def)
  have stop: "isl (port_mapping_entry ?E mappings_service (Suc (Suc 0)))"
    by (simp add: e2)
  have run: "\<forall>j<Suc (Suc 0). \<not> isl (port_mapping_entry ?E mappings_service j)"
    by (simp add: All_less_Suc e0 e1)
  from GetPortMappings_loop_stops [OF stop run, of 0 "[]" "[]"] obtain tr1 where
    "GetPortMappings_loop ?E mappings_service 0 [] []
       = Some ([] @ map (\<lambda>j. projr (port_mapping_entry ?E mappings_service j))
                       [0..<Suc (Suc 0)], tr1)"
    by blast
  then have g: "GetPortMappings ?E mappings_service []
       = Some ([[''NewProtocol'' \<mapsto> ''TCP''],
                [''NewExternalPort'' \<mapsto> ''80'', ''NewProtocol'' \<mapsto> ''TCP'']], tr1)"
    by (simp add: GetPortMappings_def e0 e1 upt_rec)
  have s: "py_str 80 = ''80''"
    by (simp add: py_str_def nat_digits.simps)
  show ?thesis
    by (simp add: HasPortMapping_def g s)
qed

text \<open>
  Claim C10, amended.  Let \<open>n\<close> be the first index at which the query raises.  Then
  \<^verbatim>\<open>GetPortMappings\<close> returns the answers to the indices 0 to \<open>n - 1\<close>, in this order
  and no other, and \<^verbatim>\<open>HasPortMapping\<close> ends.  It returns \<^verbatim>\<open>True\<close> only if one of the
  mappings has the field \<^verbatim>\<open>NewExternalPort\<close> equal to \<^verbatim>\<open>str(port)\<close> and the field
  \<^verbatim>\<open>NewProtocol\<close> equal to the protocol; and when every mapping carries these two fields,
  it returns \<^verbatim>\<open>True\<close> if there is such a mapping and \<^verbatim>\<open>False\<close> if there is none.
\<close>

theorem HasPortMapping_iff_some_mapping_matches:
  assumes "isl (port_mapping_entry E srv n)"
      and "\<forall>j<n. \<not> isl (port_mapping_entry E srv j)"
  shows "\<exists>ms tr1 r. GetPortMappings E srv tr = Some (ms, tr1)
           \<and> length ms = n
           \<and> (\<forall>j<n. port_mapping_entry E srv j = Inr (ms ! j))
           \<and> HasPortMapping E srv p protocol tr = Some (r, tr1)
           \<and> (r = Inr True \<longrightarrow>
                 (\<exists>m \<in> set ms. m ''NewExternalPort'' = Some (py_str p)
                               \<and> m ''NewProtocol'' = Some protocol))
           \<and> ((\<forall>m \<in> set ms. m ''NewExternalPort'' \<noteq> None \<and> m ''NewProtocol'' \<noteq> None) \<longrightarrow>
                 r = Inr (\<exists>m \<in> set ms. m ''NewExternalPort'' = Some (py_str p)
                                      \<and> m ''NewProtocol'' = Some protocol))"
proof -
  define ms where "ms = map (\<lambda>j. projr (port_mapping_entry E srv j)) [0..<n]"
  define r where "r = has_mapping ms p protocol"
  from GetPortMappings_loop_stops [OF assms(1,2), of 0 "[]" tr] obtain tr1 where
    g: "GetPortMappings E srv tr = Some (ms, tr1)"
    by (auto simp: GetPortMappings_def ms_def)
  have len: "length ms = n" by (simp add: ms_def)
  have entries: "\<forall>j<n. port_mapping_entry E srv j = Inr (ms ! j)"
  proof (intro allI impI)
    fix j
    assume j: "j < n"
    with assms(2) obtain m where "port_mapping_entry E srv j = Inr m"
      by (cases "port_mapping_entry E srv j") auto
    then show "port_mapping_entry E srv j = Inr (ms ! j)"
      using j by (simp add: ms_def)
  qed
  have h: "HasPortMapping E srv p protocol tr = Some (r, tr1)"
    by (simp add: HasPortMapping_def g r_def)
  have sound: "r = Inr True \<longrightarrow>
                 (\<exists>m \<in> set ms. m ''NewExternalPort'' = Some (py_str p)
                               \<and> m ''NewProtocol'' = Some protocol)"
    unfolding r_def by (rule impI) (rule has_mapping_sound)
  have complete: "(\<forall>m \<in> set ms. m ''NewExternalPort'' \<noteq> None \<and> m ''NewProtocol'' \<noteq> None) \<longrightarrow>
                 r = Inr (\<exists>m \<in> set ms. m ''NewExternalPort'' = Some (py_str p)
                                      \<and> m ''NewProtocol'' = Some protocol)"
    unfolding r_def by (rule impI) (rule has_mapping_complete)
  from g len entries h sound complete show ?thesis
    by - (rule exI [of _ ms], rule exI [of _ tr1], rule exI [of _ r], intro conjI; assumption)
qed

theorem HasPortMapping_iff_some_mapping_matches_witness:
  "\<exists>ms tr1. GetPortMappings (gateway http_up) mappings_service [] = Some (ms, tr1)
      \<and> length ms = 2
      \<and> HasPortMapping (gateway http_up) mappings_service 443 ''TCP'' [] = Some (Inr True, tr1)
      \<and> HasPortMapping (gateway http_up) mappings_service 443 ''UDP'' [] = Some (Inr False, tr1)"
proof -
  let ?E = "gateway http_up"
  have a: "Service_getattr mappings_service ''GetGenericPortMappingEntry''
            = Inr \<lparr>action_name = Some ''GetGenericPortMappingEntry'',
                   arguments = arguments (snd (hd (actions mappings_service))),
                   args_in = args_in (snd (hd (actions mappings_service))),
                   args_out = args_out (snd (hd (actions mappings_service)))\<rparr>"
    by (simp add: Service_getattr_def mappings_service_def example_defs dom_defs service_defs)
  have e0: "port_mapping_entry ?E mappings_service 0
              = Inr [''NewExternalPort'' \<mapsto> ''80'', ''NewProtocol'' \<mapsto> ''TCP'']"
    by (simp add: port_mapping_entry_def dispatch_def execute_def a) (simp add: gateway_def)
  have e1: "port_mapping_entry ?E mappings_service (Suc 0)
              = Inr [''NewExternalPort'' \<mapsto> ''443'', ''NewProtocol'' \<mapsto> ''TCP'']"
    by (simp add: port_mapping_entry_def dispatch_def execute_def a) (simp add: gateway_def)
  have e2: "port_mapping_entry ?E mappings_service (Suc (Suc 0)) = Inl SOAPError"
    by (simp add: port_mapping_entry_def dispatch_def execute_def a) (simp add: gateway_def)
  have stop: "isl (port_mapping_entry ?E mappings_service (Suc (Suc 0)))"
    by (simp add: e2)
  have run: "\<forall>j<Suc (Suc 0). \<not> isl (port_mapping_entry ?E mappings_service j)"
    by (simp add: All_less_Suc e0 e1)
  have s: "py_str 443 = ''443''"
    by (simp add: py_str_def nat_digits.simps)
  from HasPortMapping_iff_some_mapping_matches [OF stop run, of "[]" 443 "''TCP''"]
  obtain ms tr1 where
    g: "GetPortMappings ?E mappings_service [] = Some (ms, tr1)" and
    len: "length ms = Suc (Suc 0)" and
    entries: "\<forall>j<Suc (Suc 0). port_mapping_entry ?E mappings_service j = Inr (ms ! j)"
    by blast
  from entries e0 e1 have "ms ! 0 = [''NewExternalPort'' \<mapsto> ''80'', ''NewProtocol'' \<mapsto> ''TCP'']"
    and "ms ! Suc 0 = [''NewExternalPort'' \<mapsto> ''443'', ''NewProtocol'' \<mapsto> ''TCP'']"
    by (simp_all add: All_less_Suc)
  with len have ms: "ms = [[''NewExternalPort'' \<mapsto> ''80'', ''NewProtocol'' \<mapsto> ''TCP''],
                          [''NewExternalPort'' \<mapsto> ''443'', ''NewProtocol'' \<mapsto> ''TCP'']]"
    by (cases ms; cases "tl ms") auto
  have t: "HasPortMapping ?E mappings_service 443 ''TCP'' [] = Some (Inr True, tr1)"
    by (simp add: HasPortMapping_def g ms s)
  have u: "HasPortMapping ?E mappings_service 443 ''UDP'' [] = Some (Inr False, tr1)"
    by (simp add: HasPortMapping_def g ms s)
  from g len t u show ?thesis by simp
qed

end
